theory Spec2Isabelle
  imports Main "HOL-Library.Sublist"
begin

section \<open>Python values\<close>

text \<open>
  The service passes around what \<^verbatim>\<open>json.loads\<close> returns and what the request bodies carry:
  \<^verbatim>\<open>None\<close>, booleans, integers, strings, lists and string-keyed dicts. A dict is an
  association list in insertion order, read with \<open>map_of\<close>. Strings are sequences of code
  points below 256; floating-point numbers are not part of the embedding.
\<close>

datatype json =
    JNull
  | JBool bool
  | JInt int
  | JStr string
  | JArr "json list"
  | JObj "(string \<times> json) list"

type_synonym py_dict = "(string \<times> json) list"

text \<open>Truth value of an object, as \<^verbatim>\<open>if x:\<close> tests it.\<close>

fun truthy :: "json \<Rightarrow> bool" where
  "truthy JNull = False"
| "truthy (JBool b) = b"
| "truthy (JInt i) = (i \<noteq> 0)"
| "truthy (JStr s) = (s \<noteq> [])"
| "truthy (JArr xs) = (xs \<noteq> [])"
| "truthy (JObj kvs) = (kvs \<noteq> [])"

text \<open>\<^verbatim>\<open>d.get(k, default)\<close> on a dict.\<close>

definition dict_get :: "py_dict \<Rightarrow> string \<Rightarrow> json \<Rightarrow> json" where
  "dict_get d k dflt = (case map_of d k of None \<Rightarrow> dflt | Some v \<Rightarrow> v)"

text \<open>
  \<^verbatim>\<open>str(x)\<close>, which is also what an f-string placeholder renders: a string is itself,
  every other value is rendered by the interpreter's \<^verbatim>\<open>repr\<close>, a parameter here.
\<close>

definition py_str :: "(json \<Rightarrow> string) \<Rightarrow> json \<Rightarrow> string" where
  "py_str repr v = (case v of JStr s \<Rightarrow> s | _ \<Rightarrow> repr v)"

text \<open>\<^verbatim>\<open>sep.join(xs)\<close>.\<close>

fun py_join :: "string \<Rightarrow> string list \<Rightarrow> string" where
  "py_join sep [] = []"
| "py_join sep [x] = x"
| "py_join sep (x # y # ys) = x @ sep @ py_join sep (y # ys)"

definition nl :: string where
  "nl = [CHR 0x0A]"

text \<open>A triple-quoted literal is the join of its lines with newlines.\<close>

definition text_lines :: "string list \<Rightarrow> string" where
  "text_lines ls = py_join nl ls"

section \<open>Prompt composer (app/llm/prompts.py)\<close>

subsection \<open>The fixed text of the full-generation prompt\<close>

definition landing_intro :: "string list" where
  "landing_intro =
    [''You are an expert landing page designer and copywriter. Generate a landing page JSON specification that converts visitors into customers.'',
     '''',
     ''## USER REQUIREMENTS'']"

definition tone_instruction_brand :: "string list" where
  "tone_instruction_brand =
    ['''',
     ''CRITICAL: Use the above brand context as your PRIMARY reference for:'',
     ''- Tone of voice and writing style'',
     ''- Language patterns and vocabulary'',
     ''- Brand personality and messaging approach'',
     ''- Visual aesthetic (colors, imagery style)'',
     ''- Value propositions and positioning'',
     '''',
     ''The generated landing page should feel like a natural extension of the existing brand website.'',
     ''Match the sophistication level, formality, and emotional tone you observe in the crawled content.'',
     '''']"

definition landing_guidelines :: "string list" where
  "landing_guidelines =
    ['''',
     ''## CONTENT GUIDELINES'',
     '''',
     ''**If brand context is provided above:**'',
     ''1. **Tone Matching**: Carefully analyze the writing style, vocabulary, and sentence structure in the brand context. Mirror this style precisely.'',
     ''2. **Voice Consistency**: If the brand is casual and conversational, be casual. If formal and authoritative, match that.'',
     ''3. **Vocabulary**: Use similar terminology, industry jargon, and word choices as seen in the context.'',
     ''4. **Messaging Alignment**: Echo the value propositions and benefits mentioned in the brand context.'',
     ''5. **Visual Alignment**: If the context mentions colors or aesthetic preferences, respect those.'',
     '''',
     ''**General Guidelines:**'',
     ''- Headlines should be compelling and benefit-driven (5-8 words)'',
     ''- Subheadlines should expand on the value proposition (1-2 sentences)'',
     ''- Features should focus on benefits, not just features'',
     ''- Testimonials should feel authentic and specific'',
     ''- FAQs should address real objections and concerns'',
     ''- CTAs should be action-oriented and clear'',
     '''',
     ''## TECHNICAL REQUIREMENTS'',
     '''',
     ''Return ONLY valid JSON. No markdown code blocks (```json), no explanatory text, just raw JSON.'',
     '''',
     ''Use this exact structure: '',
     '''',
     ''{'']"

definition landing_schema :: "string list" where
  "landing_schema =
    [''  \"version\": 1,'',
     ''  \"sections\": ['',
     ''    {'',
     ''      \"id\": \"hero-1\",'',
     ''      \"type\": \"hero\",'',
     ''      \"order\": 0,'',
     ''      \"data\": {'',
     ''        \"headline\": \"string - powerful main headline (5-8 words, benefit-focused)\",'',
     ''        \"subheadline\": \"string - supporting headline that expands the value prop (1-2 sentences)\",'',
     ''        \"ctaText\": \"string - action button text (3-5 words, e.g., 'Start Free Trial', 'Get Started Now')\",'',
     ''        \"backgroundImage\": \"https://images.unsplash.com/photo-... - relevant unsplash image URL\",'',
     ''        \"textColor\": \"#FFFFFF\",'',
     ''        \"backgroundColor\": \"#1a1a1a\"'',
     ''      }'',
     ''    },'',
     ''    {'',
     ''      \"id\": \"features-1\",'',
     ''      \"type\": \"features\",'',
     ''      \"order\": 1,'',
     ''      \"data\": {'',
     ''        \"title\": \"string - section headline\",'',
     ''        \"description\": \"string - optional section description (1-2 sentences)\",'',
     ''        \"items\": ['',
     ''          {'',
     ''            \"id\": \"f1\",'',
     ''            \"title\": \"string - feature name (2-4 words)\",'',
     ''            \"description\": \"string - benefit-focused description (1 sentence, focus on what the customer gains)\",'',
     ''            \"icon\": \"emoji - single relevant emoji\"'',
     ''          },'',
     ''          {'',
     ''            \"id\": \"f2\",'',
     ''            \"title\": \"string\",'',
     ''            \"description\": \"string\",'',
     ''            \"icon\": \"emoji\"'',
     ''          },'',
     ''          {'',
     ''            \"id\": \"f3\",'',
     ''            \"title\": \"string\",'',
     ''            \"description\": \"string\",'',
     ''            \"icon\": \"emoji\"'',
     ''          }'',
     ''        ]'',
     ''      }'',
     ''    },'',
     ''    {'',
     ''      \"id\": \"testimonials-1\",'',
     ''      \"type\": \"testimonials\",'',
     ''      \"order\": 2,'',
     ''      \"data\": {'',
     ''        \"title\": \"string - section title (e.g., 'What Our Customers Say', 'Trusted By Thousands')\",'',
     ''        \"items\": ['',
     ''          {'',
     ''            \"id\": \"t1\",'',
     ''            \"quote\": \"string - authentic testimonial (1-2 sentences, focus on specific results or benefits)\",'',
     ''            \"author\": \"string - realistic first and last name\",'',
     ''            \"role\": \"string - job title\",'',
     ''            \"company\": \"string - company name (can be real or realistic-sounding)\",'',
     ''            \"rating\": 5'',
     ''          },'',
     ''          {'',
     ''            \"id\": \"t2\",'',
     ''            \"quote\": \"string\",'',
     ''            \"author\": \"string\",'',
     ''            \"role\": \"string\",'',
     ''            \"company\": \"string\",'',
     ''            \"rating\": 5'',
     ''          }'',
     ''        ]'',
     ''      }'',
     ''    },'',
     ''    {'',
     ''      \"id\": \"faq-1\",'',
     ''      \"type\": \"faq\",'',
     ''      \"order\": 3,'',
     ''      \"data\": {'',
     ''        \"title\": \"Frequently Asked Questions\",'',
     ''        \"items\": ['',
     ''          {'',
     ''            \"id\": \"q1\",'',
     ''            \"question\": \"string - common objection or question (conversational style)\",'',
     ''            \"answer\": \"string - clear, concise answer (1-2 sentences)\"'',
     ''          },'',
     ''          {'',
     ''            \"id\": \"q2\",'',
     ''            \"question\": \"string\",'',
     ''            \"answer\": \"string\"'',
     ''          },'',
     ''          {'',
     ''            \"id\": \"q3\",'',
     ''            \"question\": \"string\",'',
     ''            \"answer\": \"string\"'',
     ''          }'',
     ''        ]'',
     ''      }'',
     ''    },'',
     ''    {'',
     ''      \"id\": \"contact-1\",'',
     ''      \"type\": \"contact\",'',
     ''      \"order\": 4,'',
     ''      \"data\": {'',
     ''        \"title\": \"string - compelling CTA headline (e.g., 'Ready to Transform Your Business?')\",'',
     ''        \"description\": \"string - supporting text that creates urgency or reinforces value (1-2 sentences)\",'',
     ''        \"fields\": ['',
     ''          {\"name\": \"email\", \"label\": \"Email Address\", \"type\": \"email\", \"required\": true},'',
     ''          {\"name\": \"company\", \"label\": \"Company Name\", \"type\": \"text\", \"required\": false},'',
     ''          {\"name\": \"message\", \"label\": \"How can we help?\", \"type\": \"textarea\", \"required\": true}'',
     ''        ],'',
     ''        \"submitText\": \"string - button text (e.g., 'Get Started', 'Request Demo')\",'',
     ''        \"backgroundColor\": \"#f9fafb\"'',
     ''      }'',
     ''    },'',
     ''    {'',
     ''      \"id\": \"footer-1\",'',
     ''      \"type\": \"footer\",'',
     ''      \"order\": 5,'',
     ''      \"data\": {'',
     ''        \"links\": ['',
     ''          {\"label\": \"Privacy Policy\", \"url\": \"/privacy\"},'',
     ''          {\"label\": \"Terms of Service\", \"url\": \"/terms\"},'',
     ''          {\"label\": \"Contact\", \"url\": \"/contact\"}'',
     ''        ],'',
     ''        \"socialLinks\": ['',
     ''          {\"platform\": \"Twitter\", \"url\": \"https://twitter.com\"},'',
     ''          {\"platform\": \"LinkedIn\", \"url\": \"https://linkedin.com\"}'',
     ''        ],'']"

definition landing_outro :: "string list" where
  "landing_outro =
    [''      }'',
     ''    }'',
     ''  ]'',
     ''}'',
     '''',
     ''Generate the complete landing page JSON now:'']"

subsection \<open>build_landing_page_prompt\<close>

text \<open>
  \<^verbatim>\<open>brand_context_section\<close> and \<^verbatim>\<open>tone_instruction\<close> as the two branches of
  \<^verbatim>\<open>if crawled_context:\<close> assign them.
\<close>

definition brand_context_section :: "string \<Rightarrow> string" where
  "brand_context_section crawled_context =
     text_lines ['''', ''## BRAND CONTEXT (Crawled from Website)'', crawled_context, '''', '''']"

definition tone_instruction_plain :: "string \<Rightarrow> string" where
  "tone_instruction_plain brand_tone =
     text_lines ['''', ''Use a '' @ brand_tone @ '' tone throughout all copy.'', '''']"

text \<open>
  The values of \<^verbatim>\<open>brand_context_section\<close> and \<^verbatim>\<open>tone_instruction\<close> after
  \<^verbatim>\<open>if crawled_context: ... else: ...\<close>; an optional string is true when it is present
  and not empty.
\<close>

definition context_blocks :: "string \<Rightarrow> string option \<Rightarrow> string \<times> string" where
  "context_blocks brand_tone crawled_context =
     (case crawled_context of
        Some c \<Rightarrow>
          if c \<noteq> []
          then (brand_context_section c, text_lines tone_instruction_brand)
          else ('''', tone_instruction_plain brand_tone)
      | None \<Rightarrow> ('''', tone_instruction_plain brand_tone))"

text \<open>
  The first argument is \<^verbatim>\<open>repr\<close>, the second the value of \<^verbatim>\<open>uuid.uuid4().hex\<close>
  drawn by this call.
\<close>

definition build_landing_page_prompt ::
  "(json \<Rightarrow> string) \<Rightarrow> string \<Rightarrow> py_dict \<Rightarrow> string option \<Rightarrow> string" where
  "build_landing_page_prompt repr uuid_hex user_input crawled_context =
     (let unique_page_id = ''landing-'' @ take 8 uuid_hex;
          industry = dict_get user_input ''industry'' (JStr ''general business'');
          offer = dict_get user_input ''offer'' (JStr '''');
          target_audience = dict_get user_input ''target_audience'' (JStr '''');
          brand_tone = dict_get user_input ''brand_tone'' (JStr ''professional'');
          (context_section, tone_instruction) =
            context_blocks (py_str repr brand_tone) crawled_context
      in text_lines
           (landing_intro @
            [''- Industry: '' @ py_str repr industry,
             ''- Offer/Product: '' @ py_str repr offer,
             ''- Target Audience: '' @ py_str repr target_audience,
             ''- Brand Tone: '' @ py_str repr brand_tone,
             '''',
             context_section @ tone_instruction] @
            landing_guidelines @
            [''  \"pageId\": \"'' @ unique_page_id @ ''\",''] @
            landing_schema @
            [''        \"copyright\": \"'' @ [CHR 0xA9] @ '' 2025 '' @
               (if truthy offer then py_str repr offer else ''Company'') @
               ''. All rights reserved.\"''] @
            landing_outro))"


section \<open>Context extractor (app/crawler.py)\<close>

text \<open>
  A page record as \<^verbatim>\<open>_fetch_page_data\<close> builds it. The four helpers \<^verbatim>\<open>_get_title\<close>,
  \<^verbatim>\<open>_get_meta_description\<close>, \<^verbatim>\<open>_get_headings\<close> and \<^verbatim>\<open>_get_clean_text\<close> query the
  parsed document; \<open>soup\<close> holds what they read from it.
\<close>

record headings =
  h1 :: "string list"
  h2 :: "string list"
  h3 :: "string list"

record soup =
  soup_title :: string
  soup_meta_description :: string
  soup_headings :: headings
  soup_text :: string
  soup_str :: string

record page_data =
  url :: string
  title :: string
  meta_description :: string
  headings :: headings
  text_content :: string
  html :: string

record url_parts =
  scheme :: string
  netloc :: string
  path :: string

text \<open>
  What the crawler takes from outside the repository:
  \<^item> \<open>http_get\<close>: \<^verbatim>\<open>requests.get\<close>, \<^verbatim>\<open>raise_for_status\<close> and the BeautifulSoup parse of the
    response; \<open>Inl\<close> is the message of whatever exception one of them raised;
  \<^item> \<open>anchor_hrefs\<close>: the \<^verbatim>\<open>href\<close> values of \<^verbatim>\<open>soup.find_all('a', href=True)\<close> for an HTML
    text, in document order;
  \<^item> \<open>urljoin\<close>, \<open>urlparse\<close>: the functions of \<^verbatim>\<open>urllib.parse\<close>, \<open>None\<close> when they raise;
  \<^item> \<open>set_order\<close>: the order in which \<^verbatim>\<open>list(links)\<close> enumerates the set built by adding the
    given distinct strings one after the other. For strings it depends on the hash seed of
    the interpreter process.
\<close>

record crawl_env =
  http_get :: "string \<Rightarrow> string + soup"
  anchor_hrefs :: "string \<Rightarrow> string list"
  urljoin :: "string \<Rightarrow> string \<Rightarrow> string option"
  urlparse :: "string \<Rightarrow> url_parts option"
  set_order :: "string list \<Rightarrow> string list"

text \<open>\<^verbatim>\<open>_fetch_page_data\<close>: every exception is caught and becomes \<^verbatim>\<open>None\<close>.\<close>

definition fetch_page_data :: "crawl_env \<Rightarrow> string \<Rightarrow> page_data option" where
  "fetch_page_data env u =
     (case http_get env u of
        Inl e \<Rightarrow> None
      | Inr s \<Rightarrow>
          Some \<lparr>url = u,
                title = soup_title s,
                meta_description = soup_meta_description s,
                headings = soup_headings s,
                text_content = take 3000 (soup_text s),
                html = soup_str s\<rparr>)"

text \<open>\<^verbatim>\<open>s.rstrip('/')\<close> and \<^verbatim>\<open>href.startswith((...))\<close>.\<close>

definition rstrip_slash :: "string \<Rightarrow> string" where
  "rstrip_slash s = rev (dropWhile (\<lambda>c. c = CHR ''/'') (rev s))"

definition skipped_href :: "string \<Rightarrow> bool" where
  "skipped_href href =
     (prefix ''#'' href \<or> prefix ''mailto:'' href \<or> prefix ''tel:'' href \<or>
      prefix ''javascript:'' href)"

text \<open>\<^verbatim>\<open>links.add(x)\<close> on the set, kept as the sequence of its distinct insertions.\<close>

definition set_add :: "string list \<Rightarrow> string \<Rightarrow> string list" where
  "set_add links x = (if x \<in> set links then links else links @ [x])"

text \<open>
  The loop of \<^verbatim>\<open>_extract_internal_links\<close> over the anchors; \<open>None\<close> when \<^verbatim>\<open>urljoin\<close> or
  \<^verbatim>\<open>urlparse\<close> raises.
\<close>

fun collect_links ::
  "crawl_env \<Rightarrow> string \<Rightarrow> string \<Rightarrow> string list \<Rightarrow> string list \<Rightarrow> string list option" where
  "collect_links env base_url base_domain [] links = Some links"
| "collect_links env base_url base_domain (href # hrefs) links =
     (if skipped_href href then collect_links env base_url base_domain hrefs links
      else
        (case urljoin env base_url href of
           None \<Rightarrow> None
         | Some full_url \<Rightarrow>
             (case urlparse env full_url of
                None \<Rightarrow> None
              | Some parsed \<Rightarrow>
                  if netloc parsed = base_domain
                  then
                    (let clean_url = scheme parsed @ ''://'' @ netloc parsed @ path parsed
                     in if rstrip_slash clean_url \<noteq> rstrip_slash base_url
                        then collect_links env base_url base_domain hrefs (set_add links clean_url)
                        else collect_links env base_url base_domain hrefs links)
                  else collect_links env base_url base_domain hrefs links)))"

definition extract_internal_links :: "crawl_env \<Rightarrow> string \<Rightarrow> string \<Rightarrow> string list option" where
  "extract_internal_links env base_url html_text =
     (case urlparse env base_url of
        None \<Rightarrow> None
      | Some base \<Rightarrow>
          (case collect_links env base_url (netloc base) (anchor_hrefs env html_text) [] of
             None \<Rightarrow> None
           | Some links \<Rightarrow> Some (take 5 (set_order env links))))"

text \<open>Decimal rendering of a list index in an f-string.\<close>

fun str_nat :: "nat \<Rightarrow> string" where
  "str_nat n =
     (if n < 10 then [char_of (48 + n)]
      else str_nat (n div 10) @ [char_of (48 + n mod 10)])"

declare str_nat.simps [simp del]

text \<open>The parts one page appends to \<^verbatim>\<open>context_parts\<close> in \<^verbatim>\<open>_build_brand_context\<close>.\<close>

definition page_parts :: "nat \<Rightarrow> page_data \<Rightarrow> string list" where
  "page_parts i page =
     [if i = 0 then ''=== HOME PAGE ==='' @ nl @ ''URL: '' @ url page
      else nl @ ''=== PAGE '' @ str_nat i @ '' ==='' @ nl @ ''URL: '' @ url page] @
     (if title page \<noteq> [] then [''Title: '' @ title page] else []) @
     (if meta_description page \<noteq> [] then [''Description: '' @ meta_description page] else []) @
     (if h1 (headings page) \<noteq> []
      then [''Main Headings: '' @ py_join '', '' (take 3 (h1 (headings page)))] else []) @
     [''Content Preview:'' @ nl @ take 800 (text_content page)]"

text \<open>The block of one page: its parts, one per line.\<close>

definition page_block :: "nat \<Rightarrow> page_data \<Rightarrow> string" where
  "page_block i page = py_join nl (page_parts i page)"

definition build_brand_context :: "page_data list \<Rightarrow> string" where
  "build_brand_context pages =
     py_join nl (concat (map (\<lambda>(i, page). page_parts i page) (enumerate 0 pages)))"

text \<open>\<^verbatim>\<open>xs[:n]\<close> for an integer \<open>n\<close>: a negative bound counts from the end.\<close>

definition slice_to :: "'a list \<Rightarrow> int \<Rightarrow> 'a list" where
  "slice_to xs n = (if 0 \<le> n then take (nat n) xs else take (length xs - nat (- n)) xs)"

text \<open>The loop over the selected links: a page that could not be fetched is skipped.\<close>

fun crawl_inner :: "crawl_env \<Rightarrow> string list \<Rightarrow> page_data list" where
  "crawl_inner env [] = []"
| "crawl_inner env (link # links) =
     (case fetch_page_data env link of
        None \<Rightarrow> crawl_inner env links
      | Some page \<Rightarrow> page # crawl_inner env links)"

text \<open>
  The body of \<^verbatim>\<open>crawl_website\<close> up to \<^verbatim>\<open>pages_data\<close>: the URLs handed to
  \<^verbatim>\<open>_fetch_page_data\<close>, in call order, and the page records collected. An exception while
  extracting the links is caught and leaves the home page alone in the list.
\<close>

definition crawl_pages :: "crawl_env \<Rightarrow> string \<Rightarrow> int \<Rightarrow> string list \<times> page_data list option" where
  "crawl_pages env base_url max_inner_pages =
     (case fetch_page_data env base_url of
        None \<Rightarrow> ([base_url], None)
      | Some home_data \<Rightarrow>
          (case extract_internal_links env base_url (html home_data) of
             None \<Rightarrow> ([base_url], Some [home_data])
           | Some inner_links \<Rightarrow>
               (let selected = slice_to inner_links max_inner_pages
                in (base_url # selected, Some (home_data # crawl_inner env selected)))))"

text \<open>\<^verbatim>\<open>crawl_website\<close>: the requested URLs and the returned brand context.\<close>

definition crawl_website :: "crawl_env \<Rightarrow> string \<Rightarrow> int \<Rightarrow> string list \<times> string option" where
  "crawl_website env base_url max_inner_pages =
     (case crawl_pages env base_url max_inner_pages of
        (requested, pages_data) \<Rightarrow> (requested, map_option build_brand_context pages_data))"


section \<open>Exceptions\<close>

text \<open>
  The exceptions that travel through the generation client and the routes. Those the
  interpreter or a library raises carry what identifies them; the two the generation client
  raises itself carry the fixed beginning of their message and the exception whose text
  the f-string appends to it.
\<close>

datatype exn =
    TypeError
  | AttributeError
  | KeyError string
  | JSONDecodeError string
  | ProviderError string
  | DuplicateKeyError
  | ValidationError
  | ValueError string exn
  | Exception string exn

text \<open>
  \<^verbatim>\<open>str(e)\<close>: the text of an exception raised elsewhere is given by \<open>msg\<close>; the text of the
  two raised here is the fixed beginning followed by the text of the cause.
\<close>

fun exn_str :: "(exn \<Rightarrow> string) \<Rightarrow> exn \<Rightarrow> string" where
  "exn_str msg (ValueError p e) = p @ exn_str msg e"
| "exn_str msg (Exception p e) = p @ exn_str msg e"
| "exn_str msg e = msg e"

text \<open>
  \<^verbatim>\<open>except ValueError\<close>: \<^verbatim>\<open>json.JSONDecodeError\<close> and pydantic's \<^verbatim>\<open>ValidationError\<close> are
  subclasses of \<^verbatim>\<open>ValueError\<close>.
\<close>

fun is_value_error :: "exn \<Rightarrow> bool" where
  "is_value_error (ValueError p e) = True"
| "is_value_error (JSONDecodeError m) = True"
| "is_value_error ValidationError = True"
| "is_value_error e = False"

subsection \<open>The fixed text of the section-regeneration prompt\<close>

definition instructions_hero :: "string list" where
  "instructions_hero =
    [''For HERO section, regenerate with:'',
     ''- NEW headline (5-8 words, powerful, unique angle)'',
     ''- NEW subheadline (1-2 sentences, different messaging)'',
     ''- Same CTA button text OR new CTA if makes sense'',
     ''- NEW background image URL from Unsplash that fits the new angle'',
     ''- Keep same text and background colors'']"

definition instructions_features :: "string list" where
  "instructions_features =
    [''For FEATURES section, regenerate with:'',
     ''- NEW section title and description'',
     ''- 3 NEW features (different benefits/angles from current)'',
     ''- Keep emoji icons'',
     ''- Different wording, same structure'',
     ''- Focus on different value propositions'']"

definition instructions_testimonials :: "string list" where
  "instructions_testimonials =
    [''For TESTIMONIALS section, regenerate with:'',
     ''- NEW section title'',
     ''- 2 NEW testimonials (different quotes, different personas)'',
     ''- NEW customer names, roles, companies'',
     ''- Keep 5-star ratings'',
     ''- Different benefits highlighted vs current version'']"

definition instructions_faq :: "string list" where
  "instructions_faq =
    [''For FAQ section, regenerate with:'',
     ''- NEW section title (if different angle needed)'',
     ''- 3 NEW FAQ questions and answers'',
     ''- Different common questions than current'',
     ''- 1-2 sentence answers'',
     ''- Address different concerns/use cases'']"

definition instructions_contact :: "string list" where
  "instructions_contact =
    [''For CONTACT section, regenerate with:'',
     ''- NEW CTA headline'',
     ''- NEW description copy'',
     ''- Keep same form fields (email, company, message)'',
     ''- NEW submit button text if appropriate'',
     ''- Keep background color'']"

definition instructions_footer :: "string list" where
  "instructions_footer =
    [''For FOOTER section, regenerate with:'',
     ''- Same link structure and URLs'',
     ''- Same social links'',
     ''- NEW copyright notice or company tagline if applicable'']"

definition regen_intro :: "string list" where
  "regen_intro =
    [''You are an expert landing page designer. Regenerate a single landing page section.'',
     '''',
     ''ORIGINAL USER CONTEXT:'']"

definition regen_rules :: "string list" where
  "regen_rules =
    ['''',
     ''KEY RULES:'',
     ''1. Create completely NEW content (different headlines, copy, etc.) - NOT a slight variation'',
     ''2. Keep the same JSON structure and field names'',
     ''3. Maintain the brand tone and industry context'',
     ''4. Keep appealing to the target audience'',
     ''5. Don't use the exact same words/phrases as the current version'',
     ''6. All data should be realistic and specific to the industry'',
     '''',
     ''Return ONLY valid JSON, no markdown, no code blocks. Ensure valid JSON format:'',
     '''',
     ''{'']"

definition regen_outro :: "string list" where
  "regen_outro =
    [''  \"data\": {'',
     ''    // Your new content here - match the structure of current data'',
     ''  }'',
     ''}'',
     '''',
     ''Generate completely NEW and UNIQUE content now:'']"

subsection \<open>build_section_regenerate_prompt\<close>

definition section_instructions :: "(string \<times> string) list" where
  "section_instructions =
     [(''hero'', text_lines instructions_hero),
      (''features'', text_lines instructions_features),
      (''testimonials'', text_lines instructions_testimonials),
      (''faq'', text_lines instructions_faq),
      (''contact'', text_lines instructions_contact),
      (''footer'', text_lines instructions_footer)]"

text \<open>
  \<^verbatim>\<open>section_instructions.get(section_type, default)\<close>: a list or a dict is not hashable and
  raises; any other value that is not one of the six keys gives the default.
\<close>

definition lookup_instructions :: "json \<Rightarrow> exn + string" where
  "lookup_instructions section_type =
     (case section_type of
        JStr s \<Rightarrow>
          Inr (case map_of section_instructions s of
                 Some t \<Rightarrow> t
               | None \<Rightarrow>
                   ''Regenerate this section with new, unique content while keeping the same structure.'')
      | JArr xs \<Rightarrow> Inl TypeError
      | JObj kvs \<Rightarrow> Inl TypeError
      | _ \<Rightarrow>
          Inr ''Regenerate this section with new, unique content while keeping the same structure.'')"

text \<open>\<^verbatim>\<open>section_type.upper()\<close>: only a string has the method; \<open>upper\<close> is \<^verbatim>\<open>str.upper\<close>.\<close>

definition type_upper :: "(string \<Rightarrow> string) \<Rightarrow> json \<Rightarrow> exn + string" where
  "type_upper upper section_type =
     (case section_type of JStr s \<Rightarrow> Inr (upper s) | _ \<Rightarrow> Inl AttributeError)"

definition crawl_info :: "string option \<Rightarrow> string" where
  "crawl_info crawled_context =
     (case crawled_context of
        Some c \<Rightarrow>
          if c \<noteq> [] then nl @ nl @ ''BRAND CONTEXT FROM WEBSITE:'' @ nl @ c @ nl else ''''
      | None \<Rightarrow> '''')"

definition build_section_regenerate_prompt ::
  "(json \<Rightarrow> string) \<Rightarrow> (string \<Rightarrow> string) \<Rightarrow> py_dict \<Rightarrow> py_dict \<Rightarrow> string option \<Rightarrow>
   exn + string" where
  "build_section_regenerate_prompt repr upper section user_context crawled_context =
     (let section_type = dict_get section ''type'' JNull;
          current_data = dict_get section ''data'' (JObj [])
      in case lookup_instructions section_type of
           Inl e \<Rightarrow> Inl e
         | Inr instructions \<Rightarrow>
             (case type_upper upper section_type of
                Inl e \<Rightarrow> Inl e
              | Inr upper_type \<Rightarrow>
                  Inr (text_lines
                    (regen_intro @
                     [''- Industry: '' @ py_str repr (dict_get user_context ''industry'' (JStr '''')),
                      ''- Offer: '' @ py_str repr (dict_get user_context ''offer'' (JStr '''')),
                      ''- Target Audience: '' @
                        py_str repr (dict_get user_context ''target_audience'' (JStr '''')),
                      ''- Brand Tone: '' @
                        py_str repr (dict_get user_context ''brand_tone'' (JStr '''')) @
                        crawl_info crawled_context,
                      '''',
                      ''CURRENT '' @ upper_type @ '' SECTION TO REPLACE:'',
                      py_str repr current_data,
                      '''',
                      ''REGENERATION INSTRUCTIONS:'',
                      instructions] @
                     regen_rules @
                     [''  \"id\": \"'' @ py_str repr (dict_get section ''id'' JNull) @ ''\",'',
                      ''  \"type\": \"'' @ py_str repr section_type @ ''\",'',
                      ''  \"order\": '' @ py_str repr (dict_get section ''order'' (JInt 0)) @ '',''] @
                     regen_outro))))"


section \<open>Generation client (app/llm/generator.py)\<close>

text \<open>
  One call of \<^verbatim>\<open>client.chat.completions.create\<close>: the model name, the two messages and the
  output bound (the sampling temperature, a floating-point constant, is left out).
\<close>

record chat_request =
  model :: string
  system_content :: string
  user_content :: string
  max_tokens :: nat

definition system_persona :: string where
  "system_persona =
     ''You are an expert landing page designer and conversion copywriter. '' @
     ''You create compelling marketing copy that drives action, matches brand voice, '' @
     ''and resonates with target audiences. You have deep knowledge of persuasive writing, '' @
     ''user psychology, and marketing best practices. '' @
     ''You always return your work as valid JSON with no markdown formatting.''"

text \<open>The arguments both functions pass to the provider with their prompt.\<close>

definition chat_request_of :: "string \<Rightarrow> nat \<Rightarrow> chat_request" where
  "chat_request_of prompt bound =
     \<lparr>model = ''gpt-4o'', system_content = system_persona,
      user_content = prompt, max_tokens = bound\<rparr>"

text \<open>
  What the generation client and the routes take from outside the repository:
  \<^item> \<open>crawler\<close>: the environment of the context extractor;
  \<^item> \<open>completion\<close>: the provider call together with the read of
    \<^verbatim>\<open>response.choices[0].message.content\<close>; \<open>Inl\<close> is the text of the exception raised,
    \<open>Inr None\<close> a reply without content;
  \<^item> \<open>json_loads\<close>: \<^verbatim>\<open>json.loads\<close>, \<open>Inl\<close> the message of its \<^verbatim>\<open>JSONDecodeError\<close>;
  \<^item> \<open>py_repr\<close>, \<open>str_upper\<close>: \<^verbatim>\<open>repr\<close> and \<^verbatim>\<open>str.upper\<close>;
  \<^item> \<open>page_spec_response_ok\<close>, \<open>publish_response_ok\<close>: whether pydantic accepts the
    arguments of \<^verbatim>\<open>PageSpecResponse\<close> and the version given to \<^verbatim>\<open>PublishResponse\<close>.
\<close>

record gen_env =
  crawler :: crawl_env
  completion :: "chat_request \<Rightarrow> string + string option"
  json_loads :: "string \<Rightarrow> string + json"
  py_repr :: "json \<Rightarrow> string"
  str_upper :: "string \<Rightarrow> string"
  page_spec_response_ok :: "json \<Rightarrow> json \<Rightarrow> json \<Rightarrow> bool"
  publish_response_ok :: "json \<Rightarrow> bool"

text \<open>
  \<^verbatim>\<open>crawler.crawl_website(website_url)\<close> on a value read from a dict: for anything but a
  string the request library raises inside \<^verbatim>\<open>_fetch_page_data\<close>, which returns \<^verbatim>\<open>None\<close>.
\<close>

definition crawl_value :: "crawl_env \<Rightarrow> json \<Rightarrow> string option" where
  "crawl_value env website_url =
     (case website_url of JStr u \<Rightarrow> snd (crawl_website env u 2) | _ \<Rightarrow> None)"

text \<open>
  \<^verbatim>\<open>generate_page_spec\<close>: the provider requests issued and the result. The parameter
  \<^verbatim>\<open>crawled_context\<close> is assigned \<^verbatim>\<open>None\<close> on the second line of the body, so the
  value the caller passed is never read.
\<close>

definition generate_page_spec ::
  "gen_env \<Rightarrow> string \<Rightarrow> py_dict \<Rightarrow> string option \<Rightarrow> chat_request list \<times> (exn + json)" where
  "generate_page_spec env uuid_hex user_input crawled_context_arg =
     (let website_url = dict_get user_input ''url'' JNull;
          crawled_context =
            (if truthy website_url then crawl_value (crawler env) website_url else None);
          prompt = build_landing_page_prompt (py_repr env) uuid_hex user_input crawled_context;
          request = chat_request_of prompt 2500
      in ([request],
          case completion env request of
            Inl m \<Rightarrow> Inl (Exception ''Error generating page spec: '' (ProviderError m))
          | Inr None \<Rightarrow> Inl (Exception ''Error generating page spec: '' TypeError)
          | Inr (Some response_text) \<Rightarrow>
              (case json_loads env response_text of
                 Inl m \<Rightarrow>
                   Inl (ValueError ''Failed to parse LLM response as JSON: '' (JSONDecodeError m))
               | Inr page_spec \<Rightarrow> Inr page_spec)))"

text \<open>
  \<^verbatim>\<open>regenerate_section(section, prompt)\<close>: \<^verbatim>\<open>prompt\<close> is the caller's context. A context or
  a section that is not a dict has no \<^verbatim>\<open>get\<close>; that and every exception of the prompt
  builder are caught by \<^verbatim>\<open>except Exception\<close> before any request is issued.
\<close>

definition regenerate_section ::
  "gen_env \<Rightarrow> json \<Rightarrow> json \<Rightarrow> chat_request list \<times> (exn + json)" where
  "regenerate_section env section prompt =
     (case prompt of
        JObj user_context \<Rightarrow>
          (let website_url = dict_get user_context ''url'' JNull;
               crawled_context =
                 (if truthy website_url then crawl_value (crawler env) website_url else None)
           in case section of
                JObj sec \<Rightarrow>
                  (case build_section_regenerate_prompt (py_repr env) (str_upper env)
                          sec user_context crawled_context of
                     Inl e \<Rightarrow> ([], Inl (Exception ''Error regenerating section: '' e))
                   | Inr p \<Rightarrow>
                       (let request = chat_request_of p 2000
                        in ([request],
                            case completion env request of
                              Inl m \<Rightarrow>
                                Inl (Exception ''Error regenerating section: '' (ProviderError m))
                            | Inr None \<Rightarrow>
                                Inl (Exception ''Error regenerating section: '' TypeError)
                            | Inr (Some response_text) \<Rightarrow>
                                (case json_loads env response_text of
                                   Inl m \<Rightarrow>
                                     Inl (ValueError ''Failed to parse LLM response as JSON: ''
                                            (JSONDecodeError m))
                                 | Inr updated_section \<Rightarrow> Inr updated_section))))
              | _ \<Rightarrow> ([], Inl (Exception ''Error regenerating section: '' AttributeError)))
      | _ \<Rightarrow> ([], Inl (Exception ''Error regenerating section: '' AttributeError)))"

section \<open>Document store (app/db.py)\<close>

text \<open>
  A stored document with the keys \<^verbatim>\<open>save_page\<close> writes (the \<^verbatim>\<open>_id\<close> MongoDB adds is left
  out). Time stamps are readings of the clock. The collection is the list of its documents
  in insertion order; \<open>page_id_unique\<close> says whether \<^verbatim>\<open>init_db\<close> created the unique index.
  A query \<^verbatim>\<open>{"page_id": page_id}\<close> selects the documents whose \<^verbatim>\<open>page_id\<close> is that string
  (array-valued page ids are not part of the embedding).
\<close>

record document =
  page_id :: json
  version :: json
  sections :: json
  created_at :: nat
  updated_at :: nat
  user_id :: "string option"
  published :: bool
  user_context :: py_dict
  crawled_context :: "string option"

record store =
  pages_collection :: "document list"
  page_id_unique :: bool

definition has_page_id :: "string \<Rightarrow> document \<Rightarrow> bool" where
  "has_page_id pid d = (page_id d = JStr pid)"

definition insert_one :: "store \<Rightarrow> document \<Rightarrow> exn + store" where
  "insert_one db d =
     (if page_id_unique db \<and> list_ex (\<lambda>d'. page_id d' = page_id d) (pages_collection db)
      then Inl DuplicateKeyError
      else Inr (db\<lparr>pages_collection := pages_collection db @ [d]\<rparr>))"

text \<open>\<^verbatim>\<open>find_one_and_update(..., return_document=True)\<close>: the first match is updated.\<close>

fun find_one_and_update ::
  "(document \<Rightarrow> bool) \<Rightarrow> (document \<Rightarrow> document) \<Rightarrow> document list \<Rightarrow>
   document option \<times> document list" where
  "find_one_and_update q f [] = (None, [])"
| "find_one_and_update q f (d # ds) =
     (if q d then (Some (f d), f d # ds)
      else (case find_one_and_update q f ds of (r, ds') \<Rightarrow> (r, d # ds')))"

text \<open>
  \<^verbatim>\<open>save_page\<close>; \<open>now_created\<close> and \<open>now_updated\<close> are its two readings of the clock. A
  page spec that is not a dict has no \<^verbatim>\<open>get\<close>.
\<close>

definition save_page ::
  "store \<Rightarrow> nat \<Rightarrow> nat \<Rightarrow> json \<Rightarrow> py_dict \<Rightarrow> string option \<Rightarrow> exn + document \<times> store" where
  "save_page db now_created now_updated page_spec user_ctx crawled =
     (case page_spec of
        JObj spec \<Rightarrow>
          (let doc = \<lparr>page_id = dict_get spec ''pageId'' JNull,
                      version = dict_get spec ''version'' (JInt 1),
                      sections = dict_get spec ''sections'' (JArr []),
                      created_at = now_created,
                      updated_at = now_updated,
                      user_id = None,
                      published = False,
                      user_context = user_ctx,
                      crawled_context = crawled\<rparr>
           in case insert_one db doc of
                Inl e \<Rightarrow> Inl e
              | Inr db' \<Rightarrow> Inr (doc, db'))
      | _ \<Rightarrow> Inl AttributeError)"

definition get_page :: "store \<Rightarrow> string \<Rightarrow> document option" where
  "get_page db pid = find (has_page_id pid) (pages_collection db)"

text \<open>\<^verbatim>\<open>page.get("version", 1) + 1\<close>: defined on integers and booleans only.\<close>

definition int_value :: "json \<Rightarrow> int option" where
  "int_value v =
     (case v of
        JInt i \<Rightarrow> Some i
      | JBool b \<Rightarrow> Some (if b then 1 else 0)
      | _ \<Rightarrow> None)"

definition plus_one :: "json \<Rightarrow> exn + json" where
  "plus_one v =
     (case int_value v of
        Some i \<Rightarrow> Inr (JInt (i + 1))
      | None \<Rightarrow> Inl TypeError)"

definition update_page ::
  "store \<Rightarrow> nat \<Rightarrow> string \<Rightarrow> json \<Rightarrow> exn + document option \<times> store" where
  "update_page db now pid new_sections =
     (case get_page db pid of
        None \<Rightarrow> Inr (None, db)
      | Some page \<Rightarrow>
          (case plus_one (version page) of
             Inl e \<Rightarrow> Inl e
           | Inr new_version \<Rightarrow>
               (case find_one_and_update (has_page_id pid)
                       (\<lambda>d. d\<lparr>sections := new_sections, version := new_version,
                               updated_at := now\<rparr>)
                       (pages_collection db) of
                  (result, docs') \<Rightarrow> Inr (result, db\<lparr>pages_collection := docs'\<rparr>))))"



section \<open>Routes (app/routes/pages.py)\<close>

subsection \<open>Operations of the interpreter on parsed values\<close>

text \<open>\<^verbatim>\<open>k in x\<close>, \<^verbatim>\<open>x[k]\<close> and \<^verbatim>\<open>x[k] = v\<close> for a string \<open>k\<close>, and \<^verbatim>\<open>for e in x\<close>.\<close>

definition py_contains :: "json \<Rightarrow> string \<Rightarrow> exn + bool" where
  "py_contains x k =
     (case x of
        JObj kvs \<Rightarrow> Inr (k \<in> set (map fst kvs))
      | JArr xs \<Rightarrow> Inr (JStr k \<in> set xs)
      | JStr s \<Rightarrow> Inr (sublist k s)
      | _ \<Rightarrow> Inl TypeError)"

definition py_getitem :: "json \<Rightarrow> string \<Rightarrow> exn + json" where
  "py_getitem x k =
     (case x of
        JObj kvs \<Rightarrow> (case map_of kvs k of None \<Rightarrow> Inl (KeyError k) | Some v \<Rightarrow> Inr v)
      | _ \<Rightarrow> Inl TypeError)"

fun dict_set :: "py_dict \<Rightarrow> string \<Rightarrow> json \<Rightarrow> py_dict" where
  "dict_set [] k v = [(k, v)]"
| "dict_set ((k', v') # kvs) k v =
     (if k' = k then (k, v) # kvs else (k', v') # dict_set kvs k v)"

definition py_setitem :: "json \<Rightarrow> string \<Rightarrow> json \<Rightarrow> exn + json" where
  "py_setitem x k v =
     (case x of JObj kvs \<Rightarrow> Inr (JObj (dict_set kvs k v)) | _ \<Rightarrow> Inl TypeError)"

definition iterate :: "json \<Rightarrow> exn + json list" where
  "iterate x =
     (case x of
        JArr xs \<Rightarrow> Inr xs
      | JObj kvs \<Rightarrow> Inr (map (\<lambda>kv. JStr (fst kv)) kvs)
      | JStr s \<Rightarrow> Inr (map (\<lambda>c. JStr [c]) s)
      | _ \<Rightarrow> Inl TypeError)"

subsection \<open>Requests, responses, errors\<close>

datatype http_exception =
  HTTPException (status_code: nat) (detail: string) (detail_cause: "exn option")

text \<open>
  \<open>HTTPException s d (Some e)\<close> stands for the detail \<^verbatim>\<open>f"{d}{str(e)}"\<close>,
  \<open>HTTPException s d None\<close> for the detail \<open>d\<close>.
\<close>

definition detail_text :: "(exn \<Rightarrow> string) \<Rightarrow> http_exception \<Rightarrow> string" where
  "detail_text msg h =
     detail h @ (case detail_cause h of None \<Rightarrow> [] | Some e \<Rightarrow> exn_str msg e)"

record generate_page_request =
  industry :: string
  offer :: string
  target_audience :: string
  brand_tone :: string
  website_url :: "string option"

record edit_section_request =
  section_id :: string
  data :: py_dict

datatype page_spec_response = PageSpecResponse json json json

datatype mutation_response = MutationResponse string string json


definition page_not_found :: "string \<Rightarrow> http_exception" where
  "page_not_found pid = HTTPException 404 (''Page '' @ pid @ '' not found'') None"

definition section_not_found :: "string \<Rightarrow> http_exception" where
  "section_not_found sid = HTTPException 404 (''Section '' @ sid @ '' not found'') None"

subsection \<open>generate_landing_page\<close>

text \<open>The two handlers at the end of \<^verbatim>\<open>generate_landing_page\<close>.\<close>

definition generate_error :: "exn \<Rightarrow> http_exception" where
  "generate_error e =
     (if is_value_error e then HTTPException 400 ''Invalid request: '' (Some e)
      else HTTPException 500 ''Failed to generate landing page: '' (Some e))"

text \<open>\<^verbatim>\<open>if key not in page_spec: page_spec[key] = v\<close>.\<close>

definition assign_default :: "json \<Rightarrow> string \<Rightarrow> json \<Rightarrow> exn + json" where
  "assign_default page_spec key v =
     (case py_contains page_spec key of
        Inl e \<Rightarrow> Inl e
      | Inr present \<Rightarrow> if present then Inr page_spec else py_setitem page_spec key v)"

text \<open>The construction of \<^verbatim>\<open>PageSpecResponse\<close> from the three items of the page spec.\<close>

definition page_spec_response_of :: "gen_env \<Rightarrow> json \<Rightarrow> exn + page_spec_response" where
  "page_spec_response_of env page_spec =
     (case py_getitem page_spec ''pageId'' of
        Inl e \<Rightarrow> Inl e
      | Inr pid \<Rightarrow>
          (case py_getitem page_spec ''version'' of
             Inl e \<Rightarrow> Inl e
           | Inr ver \<Rightarrow>
               (case py_getitem page_spec ''sections'' of
                  Inl e \<Rightarrow> Inl e
                | Inr secs \<Rightarrow>
                    if page_spec_response_ok env pid ver secs
                    then Inr (PageSpecResponse pid ver secs)
                    else Inl ValidationError)))"

text \<open>
  The first two steps of the handler: the dict \<^verbatim>\<open>user_input\<close> built from the request, and
  the crawl of \<^verbatim>\<open>request.website_url\<close> when it is given and not empty.
\<close>

definition user_input_of :: "generate_page_request \<Rightarrow> py_dict" where
  "user_input_of request =
     [(''industry'', JStr (industry request)),
      (''offer'', JStr (offer request)),
      (''target_audience'', JStr (target_audience request)),
      (''brand_tone'', JStr (brand_tone request))]"

definition request_crawl :: "gen_env \<Rightarrow> generate_page_request \<Rightarrow> string option" where
  "request_crawl env request =
     (case website_url request of
        Some u \<Rightarrow> if u \<noteq> [] then snd (crawl_website (crawler env) u 2) else None
      | None \<Rightarrow> None)"

text \<open>
  The handler: the provider requests issued, the response, the store afterwards.
  \<open>uuid_prompt\<close> and \<open>uuid_route\<close> are the identifiers drawn by the prompt composer and by
  the handler.
\<close>

definition generate_landing_page ::
  "gen_env \<Rightarrow> string \<Rightarrow> string \<Rightarrow> nat \<Rightarrow> nat \<Rightarrow> store \<Rightarrow> generate_page_request \<Rightarrow>
   chat_request list \<times> (http_exception + page_spec_response) \<times> store" where
  "generate_landing_page env uuid_prompt uuid_route now_created now_updated db request =
     (let user_input = user_input_of request;
          crawled = request_crawl env request;
          generated = generate_page_spec env uuid_prompt user_input crawled
      in case snd generated of
           Inl e \<Rightarrow> (fst generated, Inl (generate_error e), db)
         | Inr page_spec \<Rightarrow>
             (case assign_default page_spec ''pageId'' (JStr (''landing-'' @ take 8 uuid_route)) of
                Inl e \<Rightarrow> (fst generated, Inl (generate_error e), db)
              | Inr spec1 \<Rightarrow>
                  (case assign_default spec1 ''version'' (JInt 1) of
                     Inl e \<Rightarrow> (fst generated, Inl (generate_error e), db)
                   | Inr spec2 \<Rightarrow>
                       (case save_page db now_created now_updated spec2 user_input crawled of
                          Inl e \<Rightarrow> (fst generated, Inl (generate_error e), db)
                        | Inr (saved, db') \<Rightarrow>
                            (case page_spec_response_of env spec2 of
                               Inl e \<Rightarrow> (fst generated, Inl (generate_error e), db')
                             | Inr response \<Rightarrow> (fst generated, Inr response, db'))))))"



subsection \<open>edit_section\<close>

text \<open>
  \<^verbatim>\<open>for section in sections: if section["id"] == section_id: section["data"] = v; break\<close>.
  The value is evaluated when the match is found; the result is the list after the loop,
  \<open>None\<close> when no section matched.
\<close>

fun assign_first :: "json list \<Rightarrow> string \<Rightarrow> exn + json \<Rightarrow> exn + json list option" where
  "assign_first [] sid v = Inr None"
| "assign_first (section # rest) sid v =
     (case py_getitem section ''id'' of
        Inl e \<Rightarrow> Inl e
      | Inr i \<Rightarrow>
          if i = JStr sid
          then (case v of
                  Inl e \<Rightarrow> Inl e
                | Inr new_data \<Rightarrow>
                    (case py_setitem section ''data'' new_data of
                       Inl e \<Rightarrow> Inl e
                     | Inr section' \<Rightarrow> Inr (Some (section' # rest))))
          else (case assign_first rest sid v of
                  Inl e \<Rightarrow> Inl e
                | Inr None \<Rightarrow> Inr None
                | Inr (Some rest') \<Rightarrow> Inr (Some (section # rest'))))"

text \<open>
  The object \<^verbatim>\<open>sections\<close> after the loop changed one of its elements: only the elements of
  a list are the stored sections themselves.
\<close>

definition after_loop :: "json \<Rightarrow> json list \<Rightarrow> json" where
  "after_loop secs xs' = (case secs of JArr xs \<Rightarrow> JArr xs' | _ \<Rightarrow> secs)"


subsection \<open>regenerate_section_endpoint\<close>

text \<open>The first loop: the first section whose id is the requested one.\<close>

fun find_section :: "json list \<Rightarrow> string \<Rightarrow> exn + json option" where
  "find_section [] sid = Inr None"
| "find_section (section # rest) sid =
     (case py_getitem section ''id'' of
        Inl e \<Rightarrow> Inl e
      | Inr i \<Rightarrow> if i = JStr sid then Inr (Some section) else find_section rest sid)"

definition regenerate_error :: "exn \<Rightarrow> http_exception" where
  "regenerate_error e = HTTPException 500 ''Failed to regenerate section: '' (Some e)"

definition regenerate_section_endpoint ::
  "gen_env \<Rightarrow> nat \<Rightarrow> store \<Rightarrow> string \<Rightarrow> edit_section_request \<Rightarrow>
   chat_request list \<times> (http_exception + mutation_response) \<times> store" where
  "regenerate_section_endpoint env now db pid request =
     (case get_page db pid of
        None \<Rightarrow> ([], Inl (page_not_found pid), db)
      | Some page \<Rightarrow>
          (case iterate (sections page) of
             Inl e \<Rightarrow> ([], Inl (regenerate_error e), db)
           | Inr xs \<Rightarrow>
               (case find_section xs (section_id request) of
                  Inl e \<Rightarrow> ([], Inl (regenerate_error e), db)
                | Inr None \<Rightarrow> ([], Inl (section_not_found (section_id request)), db)
                | Inr (Some section_to_regenerate) \<Rightarrow>
                    if \<not> truthy section_to_regenerate
                    then ([], Inl (section_not_found (section_id request)), db)
                    else
                      (let user_input = dict_get (data request) ''context'' (JObj []);
                           regenerated = regenerate_section env section_to_regenerate user_input
                       in case snd regenerated of
                            Inl e \<Rightarrow> (fst regenerated, Inl (regenerate_error e), db)
                          | Inr new_section \<Rightarrow>
                              (case assign_first xs (section_id request)
                                      (py_getitem new_section ''data'') of
                                 Inl e \<Rightarrow> (fst regenerated, Inl (regenerate_error e), db)
                               | Inr changed \<Rightarrow>
                                   (case update_page db now pid
                                           (case changed of
                                              None \<Rightarrow> sections page
                                            | Some xs' \<Rightarrow> after_loop (sections page) xs') of
                                      Inl e \<Rightarrow> (fst regenerated, Inl (regenerate_error e), db)
                                    | Inr (None, db') \<Rightarrow>
                                        (fst regenerated, Inl (regenerate_error TypeError), db')
                                    | Inr (Some updated_page, db') \<Rightarrow>
                                        (fst regenerated,
                                         Inr (MutationResponse ''Section regenerated successfully''
                                                pid (version updated_page)),
                                         db')))))))"

subsection \<open>reorder_sections and publish_landing_page\<close>

definition reorder_sections ::
  "nat \<Rightarrow> store \<Rightarrow> string \<Rightarrow> py_dict list \<Rightarrow> (http_exception + mutation_response) \<times> store" where
  "reorder_sections now db pid request_sections =
     (case get_page db pid of
        None \<Rightarrow> (Inl (page_not_found pid), db)
      | Some page \<Rightarrow>
          (case update_page db now pid (JArr (map JObj request_sections)) of
             Inl e \<Rightarrow> (Inl (HTTPException 500 ''Failed to reorder sections: '' (Some e)), db)
           | Inr (None, db') \<Rightarrow>
               (Inl (HTTPException 500 ''Failed to reorder sections: '' (Some TypeError)), db')
           | Inr (Some updated_page, db') \<Rightarrow>
               (Inr (MutationResponse ''Sections reordered successfully'' pid
                       (version updated_page)),
                db')))"



section \<open>A small site, used to run the definitions\<close>

text \<open>
  The site \<^verbatim>\<open>https://ex.com\<close> links to \<^verbatim>\<open>/a\<close>, \<^verbatim>\<open>/b\<close> and \<^verbatim>\<open>/c\<close>, of which \<^verbatim>\<open>/b\<close>
  answers with an error status; \<^verbatim>\<open>https://odd.example\<close> carries a link on which
  \<^verbatim>\<open>urljoin\<close> raises; every other host is unreachable. \<open>urljoin\<close> and \<open>urlparse\<close> are
  given on the URLs of these sites, with the values \<^verbatim>\<open>urllib.parse\<close> computes there.
\<close>

definition demo_home :: soup where
  "demo_home =
     \<lparr>soup_title = ''Ex Bakery'',
      soup_meta_description = ''Bread and cakes'',
      soup_headings = \<lparr>h1 = [''Fresh every day''], h2 = [], h3 = []\<rparr>,
      soup_text = ''We bake bread.'',
      soup_str = ''<home>''\<rparr>"

definition demo_inner :: "string \<Rightarrow> string \<Rightarrow> soup" where
  "demo_inner t markup =
     \<lparr>soup_title = t,
      soup_meta_description = '''',
      soup_headings = \<lparr>h1 = [], h2 = [], h3 = []\<rparr>,
      soup_text = ''Text of '' @ t,
      soup_str = markup\<rparr>"

definition demo_crawl_env :: crawl_env where
  "demo_crawl_env =
     \<lparr>http_get =
        (\<lambda>u. if u = ''https://ex.com'' then Inr demo_home
             else if u = ''https://ex.com/a'' then Inr (demo_inner ''About'' ''<inner>'')
             else if u = ''https://ex.com/c'' then Inr (demo_inner ''Contact'' ''<inner>'')
             else if u = ''https://odd.example'' then Inr (demo_inner ''Odd'' ''<odd>'')
             else Inl ''404 Client Error''),
      anchor_hrefs =
        (\<lambda>markup. if markup = ''<home>'' then [''#top'', ''/a'', ''/b'', ''/c'', ''/a'']
                  else if markup = ''<odd>'' then [''http://[::1'']
                  else []),
      urljoin =
        (\<lambda>b href. if b = ''https://ex.com'' \<and> href \<in> set [''/a'', ''/b'', ''/c'']
                  then Some (b @ href) else None),
      urlparse =
        (\<lambda>u. if u \<in> set [''https://ex.com'', ''https://ex.com/a'', ''https://ex.com/b'',
                            ''https://ex.com/c'']
             then Some \<lparr>scheme = ''https'', netloc = ''ex.com'', path = drop 14 u\<rparr>
             else if u = ''https://odd.example''
             then Some \<lparr>scheme = ''https'', netloc = ''odd.example'', path = ''''\<rparr>
             else None),
      set_order = (\<lambda>links. links)\<rparr>"


definition demo_home_page :: page_data where
  "demo_home_page =
     \<lparr>url = ''https://ex.com'', title = ''Ex Bakery'', meta_description = ''Bread and cakes'',
      headings = \<lparr>h1 = [''Fresh every day''], h2 = [], h3 = []\<rparr>,
      text_content = ''We bake bread.'', html = ''<home>''\<rparr>"

definition demo_odd_page :: page_data where
  "demo_odd_page =
     \<lparr>url = ''https://odd.example'', title = ''Odd'', meta_description = '''',
      headings = \<lparr>h1 = [], h2 = [], h3 = []\<rparr>,
      text_content = ''Text of Odd'', html = ''<odd>''\<rparr>"

definition demo_about_page :: page_data where
  "demo_about_page =
     \<lparr>url = ''https://ex.com/a'', title = ''About'', meta_description = '''',
      headings = \<lparr>h1 = [], h2 = [], h3 = []\<rparr>,
      text_content = ''Text of About'', html = ''<inner>''\<rparr>"

definition demo_hero_fields :: py_dict where
  "demo_hero_fields =
     [(''id'', JStr ''hero-1''), (''type'', JStr ''hero''), (''order'', JInt 0),
      (''data'', JObj [(''headline'', JStr ''Old'')])]"

definition demo_hero :: json where
  "demo_hero = JObj demo_hero_fields"

definition demo_page_spec :: json where
  "demo_page_spec =
     JObj [(''pageId'', JStr ''landing-1''), (''version'', JInt 1),
           (''sections'', JArr [demo_hero])]"

text \<open>A regenerated section in which the provider changed the identity fields as well.\<close>

definition demo_new_section :: json where
  "demo_new_section =
     JObj [(''id'', JStr ''other''), (''type'', JStr ''faq''), (''order'', JInt 7),
           (''data'', JObj [(''headline'', JStr ''New'')])]"

text \<open>
  A provider that answers a full generation with the page above and a regeneration with
  the section above. \<open>py_repr\<close> and \<open>str_upper\<close> are given on the values they meet here.
\<close>

definition demo_gen_env :: gen_env where
  "demo_gen_env =
     \<lparr>crawler = demo_crawl_env,
      completion =
        (\<lambda>r. if max_tokens r = 2500 then Inr (Some ''<page>'') else Inr (Some ''<section>'')),
      json_loads =
        (\<lambda>t. if t = ''<page>'' then Inr demo_page_spec
             else if t = ''<section>'' then Inr demo_new_section
             else Inl ''Expecting value''),
      py_repr =
        (\<lambda>v. if v = JInt 0 then ''0''
             else if v = JObj [(''headline'', JStr ''Old'')] then ''{'headline': 'Old'}''
             else ''{'headline': 'New'}''),
      str_upper = (\<lambda>s. if s = ''hero'' then ''HERO'' else s),
      page_spec_response_ok = (\<lambda>pid ver secs. True),
      publish_response_ok = (\<lambda>ver. True)\<rparr>"

text \<open>The same with a provider whose answer is cut off, and with one that cannot be reached.\<close>

definition demo_truncating_env :: gen_env where
  "demo_truncating_env = demo_gen_env\<lparr>completion := \<lambda>r. Inr (Some ''{\"pageId\": '')\<rparr>"

definition demo_failing_env :: gen_env where
  "demo_failing_env = demo_gen_env\<lparr>completion := \<lambda>r. Inl ''Request timed out.''\<rparr>"

definition demo_uuid :: string where
  "demo_uuid = ''0123456789abcdef0123456789abcdef''"

definition demo_empty_store :: store where
  "demo_empty_store = \<lparr>pages_collection = [], page_id_unique = True\<rparr>"

definition demo_request :: generate_page_request where
  "demo_request =
     \<lparr>industry = ''bakery'', offer = ''custom cakes'', target_audience = ''event planners'',
      brand_tone = ''warm'', website_url = Some ''https://ex.com''\<rparr>"

definition demo_document :: document where
  "demo_document =
     \<lparr>page_id = JStr ''landing-1'',
      version = JInt 1,
      sections = JArr [demo_hero],
      created_at = 10,
      updated_at = 11,
      user_id = None,
      published = False,
      user_context = user_input_of demo_request,
      crawled_context = Some (build_brand_context [demo_home_page, demo_about_page])\<rparr>"

definition demo_store :: store where
  "demo_store = \<lparr>pages_collection = [demo_document], page_id_unique = True\<rparr>"

section \<open>Views of the stored sections\<close>

text \<open>
  A section without its \<^verbatim>\<open>data\<close> item, and the stored sections without theirs: what a
  regeneration has to leave as it was.
\<close>

definition without_data :: "json \<Rightarrow> json" where
  "without_data s =
     (case s of JObj kvs \<Rightarrow> JObj (filter (\<lambda>kv. fst kv \<noteq> ''data'') kvs) | _ \<Rightarrow> s)"

definition sections_without_data :: "json \<Rightarrow> json" where
  "sections_without_data secs =
     (case secs of JArr xs \<Rightarrow> JArr (map without_data xs) | _ \<Rightarrow> secs)"

text \<open>\<^verbatim>\<open>section.get(k)\<close>, and the \<^verbatim>\<open>id\<close>, \<^verbatim>\<open>type\<close> and \<^verbatim>\<open>order\<close> of every stored section.\<close>

definition section_field :: "string \<Rightarrow> json \<Rightarrow> json option" where
  "section_field k s = (case s of JObj kvs \<Rightarrow> map_of kvs k | _ \<Rightarrow> None)"

definition identity_fields :: "json \<Rightarrow> (json option \<times> json option \<times> json option) list" where
  "identity_fields secs =
     (case secs of
        JArr xs \<Rightarrow>
          map (\<lambda>s. (section_field ''id'' s, section_field ''type'' s, section_field ''order'' s)) xs
      | _ \<Rightarrow> [])"

text \<open>
  The store after a sequence of regenerations of one section of one page; each call has
  its own provider and crawl environment, clock reading and request data.
\<close>

fun regenerate_times ::
  "(gen_env \<times> nat \<times> py_dict) list \<Rightarrow> store \<Rightarrow> string \<Rightarrow> string \<Rightarrow> store" where
  "regenerate_times [] db pid sid = db"
| "regenerate_times ((env, now, request_data) # calls) db pid sid =
     regenerate_times calls
       (snd (snd (regenerate_section_endpoint env now db pid
                    \<lparr>section_id = sid, data = request_data\<rparr>)))
       pid sid"


section \<open>Requests on the stored page of the small site\<close>


text \<open>A regeneration request that carries no context.\<close>

definition demo_regenerate_request :: edit_section_request where
  "demo_regenerate_request = \<lparr>section_id = ''hero-1'', data = []\<rparr>"



section \<open>The generation prompt of the request on the small site\<close>

text \<open>
  The lines \<^verbatim>\<open>build_landing_page_prompt\<close> joins for the brief of the small site when it is
  given no crawled context.
\<close>

definition demo_prompt_lines :: "string list" where
  "demo_prompt_lines =
     landing_intro @
     [''- Industry: bakery'',
      ''- Offer/Product: custom cakes'',
      ''- Target Audience: event planners'',
      ''- Brand Tone: warm'',
      '''',
      tone_instruction_plain ''warm''] @
     landing_guidelines @
     [''  \"pageId\": \"landing-01234567\",''] @
     landing_schema @
     [''        \"copyright\": \"'' @ [CHR 0xA9] @ '' 2025 custom cakes. All rights reserved.\"''] @
     landing_outro"


section \<open>Auxiliary facts\<close>

lemma py_join_Cons: "py_join sep (x # xs) = x @ (if xs = [] then [] else sep @ py_join sep xs)"
  by (cases xs) simp_all

lemma py_join_append:
  "py_join sep (xs @ ys) =
     (if xs = [] then py_join sep ys
      else if ys = [] then py_join sep xs
      else py_join sep xs @ sep @ py_join sep ys)"
  by (induction sep xs rule: py_join.induct) (auto simp: py_join_Cons)

lemma sublist_py_join_mid:
  assumes "as \<noteq> []" "bs \<noteq> []"
  shows "sublist (sep @ l @ sep) (py_join sep (as @ l # bs))"
proof -
  have "py_join sep (as @ l # bs) = py_join sep as @ (sep @ l @ sep) @ py_join sep bs"
    using assms by (simp add: py_join_append py_join_Cons)
  then show ?thesis
    by (metis sublist_appendI)
qed

lemma py_join_split:
  "py_join sep (as @ l # bs) =
     (if as = [] then [] else py_join sep as @ sep) @ l @
     (if bs = [] then [] else sep @ py_join sep bs)"
  by (simp add: py_join_append py_join_Cons)

lemma sublist_py_join_mem:
  assumes "l \<in> set ls"
  shows "sublist l (py_join sep ls)"
proof -
  from assms obtain as bs where "ls = as @ l # bs"
    by (auto simp: in_set_conv_decomp)
  then show ?thesis
    by (metis py_join_split sublist_appendI)
qed

lemma suffix_py_join_last: "ls \<noteq> [] \<Longrightarrow> suffix (last ls) (py_join sep ls)"
  by (induction sep ls rule: py_join.induct) (auto simp: suffix_def)

lemma prefix_py_join_hd: "ls \<noteq> [] \<Longrightarrow> prefix (hd ls) (py_join sep ls)"
  by (cases ls) (auto simp: py_join_Cons)

lemma landing_intro_hd: "landing_intro \<noteq> [] \<and> hd landing_intro = ''You are an expert landing page designer and copywriter. Generate a landing page JSON specification that converts visitors into customers.''"
  by (simp add: landing_intro_def)

lemma landing_outro_last: "landing_outro \<noteq> [] \<and> last landing_outro = ''Generate the complete landing page JSON now:''"
  by (simp add: landing_outro_def)

lemma fetch_page_data_None: "fetch_page_data env u = None \<longleftrightarrow> (\<exists>e. http_get env u = Inl e)"
  by (auto simp: fetch_page_data_def split: sum.splits)

lemma fetch_page_data_url: "fetch_page_data env u = Some p \<Longrightarrow> url p = u"
  by (auto simp: fetch_page_data_def split: sum.splits)

lemma crawl_inner_map_filter: "crawl_inner env links = List.map_filter (fetch_page_data env) links"
  by (induction links) (auto simp: List.map_filter_simps split: option.splits)

lemma crawl_inner_append: "crawl_inner env (xs @ ys) = crawl_inner env xs @ crawl_inner env ys"
  by (induction xs) (auto split: option.splits)

lemma length_crawl_inner: "length (crawl_inner env links) \<le> length links"
  by (induction links) (auto split: option.splits)

lemma length_slice_to: "0 \<le> n \<Longrightarrow> int (length (slice_to xs n)) \<le> n"
  by (simp add: slice_to_def)

lemma length_slice_to_le: "length (slice_to xs n) \<le> length xs"
  by (simp add: slice_to_def)

lemma extract_internal_links_length:
  "extract_internal_links env b h = Some ls \<Longrightarrow> length ls \<le> 5"
  by (auto simp: extract_internal_links_def split: option.splits)

lemma py_join_concat:
  "\<forall>xs \<in> set xss. xs \<noteq> [] \<Longrightarrow> py_join sep (concat xss) = py_join sep (map (py_join sep) xss)"
proof (induction xss)
  case Nil
  then show ?case by simp
next
  case (Cons xs xss)
  then have IH: "py_join sep (concat xss) = py_join sep (map (py_join sep) xss)" and ne: "xs \<noteq> []"
    by simp_all
  show ?case
  proof (cases "xss = []")
    case True
    then show ?thesis by simp
  next
    case False
    with Cons.prems have c: "concat xss \<noteq> []"
      by (cases xss) auto
    have "py_join sep (xs @ concat xss) = py_join sep xs @ sep @ py_join sep (concat xss)"
      using ne c py_join_append[of sep xs "concat xss"] by presburger
    then have "py_join sep (concat (xs # xss)) = py_join sep xs @ sep @ py_join sep (concat xss)"
      by (simp only: concat.simps)
    moreover have "py_join sep (map (py_join sep) (xs # xss)) =
        py_join sep xs @ sep @ py_join sep (map (py_join sep) xss)"
      using False by (simp add: py_join_Cons)
    ultimately show ?thesis using IH by simp
  qed
qed

lemma page_parts_shape:
  "\<exists>more. more \<noteq> [] \<and>
     page_parts i page =
       (if i = 0 then ''=== HOME PAGE ==='' @ nl @ ''URL: '' @ url page
        else nl @ ''=== PAGE '' @ str_nat i @ '' ==='' @ nl @ ''URL: '' @ url page) # more"
  unfolding page_parts_def by simp

lemma page_parts_nonempty: "page_parts i page \<noteq> []"
  using page_parts_shape[of i page] by auto

lemma build_brand_context_blocks:
  "build_brand_context pages = py_join nl (map (\<lambda>(i, page). page_block i page) (enumerate 0 pages))"
proof -
  have "\<forall>xs \<in> set (map (\<lambda>(i, page). page_parts i page) (enumerate 0 pages)). xs \<noteq> []"
    by (auto simp: page_parts_nonempty)
  then have "build_brand_context pages =
      py_join nl (map (py_join nl) (map (\<lambda>(i, page). page_parts i page) (enumerate 0 pages)))"
    unfolding build_brand_context_def by (rule py_join_concat)
  also have "map (py_join nl) (map (\<lambda>(i, page). page_parts i page) (enumerate 0 pages)) =
      map (\<lambda>(i, page). page_block i page) (enumerate 0 pages)"
    by (auto simp: page_block_def)
  finally show ?thesis .
qed

lemma page_block_home_prefix:
  "prefix (''=== HOME PAGE ==='' @ nl @ ''URL: '' @ url page @ nl) (page_block 0 page)"
proof -
  obtain more where m: "more \<noteq> []"
    "page_parts 0 page = (''=== HOME PAGE ==='' @ nl @ ''URL: '' @ url page) # more"
    using page_parts_shape[of 0 page] by auto
  show ?thesis
    unfolding page_block_def m(2) using m(1) by (simp add: py_join_Cons)
qed

lemma build_brand_context_home_prefix:
  "prefix (''=== HOME PAGE ==='' @ nl @ ''URL: '' @ url home @ nl) (build_brand_context (home # inner))"
proof -
  have "prefix (page_block 0 home) (build_brand_context (home # inner))"
    unfolding build_brand_context_blocks by (simp add: enumerate_simps py_join_Cons)
  with page_block_home_prefix[of home] show ?thesis
    using prefix_order.order_trans by blast
qed

lemma collect_links_cong:
  assumes "urljoin e1 = urljoin e2" and "urlparse e1 = urlparse e2"
  shows "collect_links e1 b d hrefs links = collect_links e2 b d hrefs links"
proof (induction hrefs arbitrary: links)
  case Nil
  show ?case by simp
next
  case (Cons href hrefs)
  show ?case
    unfolding collect_links.simps assms Cons.IH ..
qed

lemma extract_internal_links_cong:
  assumes "anchor_hrefs e1 = anchor_hrefs e2" and "urljoin e1 = urljoin e2"
    and "urlparse e1 = urlparse e2" and "set_order e1 = set_order e2"
  shows "extract_internal_links e1 b h = extract_internal_links e2 b h"
  unfolding extract_internal_links_def assms(1) assms(3) assms(4)
    collect_links_cong[OF assms(2,3), of b _ _ "[]"] ..

lemma fetch_page_data_cong:
  "http_get e1 u = http_get e2 u \<Longrightarrow> fetch_page_data e1 u = fetch_page_data e2 u"
  by (simp add: fetch_page_data_def)

lemma crawl_inner_cong:
  "\<forall>u \<in> set ls. http_get e1 u = http_get e2 u \<Longrightarrow> crawl_inner e1 ls = crawl_inner e2 ls"
proof (induction ls)
  case Nil
  show ?case by simp
next
  case (Cons l ls)
  then have "fetch_page_data e1 l = fetch_page_data e2 l"
    and "crawl_inner e1 ls = crawl_inner e2 ls"
    by (simp_all add: fetch_page_data_def)
  then show ?case by (simp split: option.splits)
qed

lemma crawl_pages_requested_hd: "\<exists>rest. fst (crawl_pages env b m) = b # rest"
  by (auto simp: crawl_pages_def Let_def split: option.splits)

lemma fst_crawl_website: "fst (crawl_website env b m) = fst (crawl_pages env b m)"
  by (simp add: crawl_website_def split: prod.splits)

lemma demo_fetch_home: "fetch_page_data demo_crawl_env ''https://ex.com'' = Some demo_home_page"
  by code_simp

lemma demo_fetch_odd: "fetch_page_data demo_crawl_env ''https://odd.example'' = Some demo_odd_page"
  by code_simp

lemma demo_links_odd: "extract_internal_links demo_crawl_env ''https://odd.example'' ''<odd>'' = None"
  by code_simp

lemma demo_get_down: "http_get demo_crawl_env ''https://down.example'' = Inl ''404 Client Error''"
  by code_simp

lemma demo_get_b: "http_get demo_crawl_env ''https://ex.com/b'' = Inl ''404 Client Error''"
  by code_simp

lemma demo_trace: "fst (crawl_website demo_crawl_env ''https://ex.com'' 2) = [''https://ex.com'', ''https://ex.com/a'', ''https://ex.com/b'']"
  by code_simp

lemma find_one_and_update_found:
  assumes "find q ds = Some d" and "q (f d)"
  shows "\<exists>ds'. find_one_and_update q f ds = (Some (f d), ds') \<and> find q ds' = Some (f d) \<and>
           length ds' = length ds"
  using assms
proof (induction ds)
  case Nil
  then show ?case by simp
next
  case (Cons x xs)
  show ?case
  proof (cases "q x")
    case True
    with Cons.prems show ?thesis by simp
  next
    case False
    with Cons.prems have "find q xs = Some d" by simp
    from Cons.IH[OF this Cons.prems(2)] obtain ds' where
      "find_one_and_update q f xs = (Some (f d), ds')" "find q ds' = Some (f d)"
      "length ds' = length xs"
      by blast
    with False show ?thesis by simp
  qed
qed

lemma find_one_and_update_missing:
  "find q ds = None \<Longrightarrow> find_one_and_update q f ds = (None, ds)"
  by (induction ds) (auto split: if_splits)

lemma update_page_found:
  assumes "get_page db pid = Some page" and "update_page db now pid secs = Inr (res, db')"
  shows "\<exists>v. int_value (version page) = Some v \<and>
           res = Some (page\<lparr>sections := secs, version := JInt (v + 1), updated_at := now\<rparr>) \<and>
           get_page db' pid =
             Some (page\<lparr>sections := secs, version := JInt (v + 1), updated_at := now\<rparr>)"
proof -
  from assms obtain v where v: "int_value (version page) = Some v"
    by (auto simp: update_page_def plus_one_def split: option.splits)
  let ?f = "\<lambda>d. d\<lparr>sections := secs, version := JInt (v + 1), updated_at := now\<rparr>"
  have f: "find (has_page_id pid) (pages_collection db) = Some page"
    using assms(1) by (simp add: get_page_def)
  then have "has_page_id pid page"
    by (auto simp: find_Some_iff)
  then have "has_page_id pid (?f page)"
    by (simp add: has_page_id_def)
  from find_one_and_update_found[where f = ?f and d = page, OF f this] obtain ds' where
    ds': "find_one_and_update (has_page_id pid) ?f (pages_collection db) = (Some (?f page), ds')"
    "find (has_page_id pid) ds' = Some (?f page)"
    by blast
  from assms v ds' have "res = Some (?f page)" "db' = db\<lparr>pages_collection := ds'\<rparr>"
    by (auto simp: update_page_def plus_one_def)
  with v ds'(2) show ?thesis
    by (auto simp: get_page_def)
qed

lemma update_page_error_iff:
  "get_page db pid = Some page \<Longrightarrow>
   (\<exists>e. update_page db now pid secs = Inl e) \<longleftrightarrow> int_value (version page) = None"
  by (auto simp: update_page_def plus_one_def split: option.splits prod.splits)


lemma find_one_and_update_map:
  assumes "find q ds = Some page" and "g (f page) = g page"
  shows "map g (snd (find_one_and_update q f ds)) = map g ds"
  using assms
  by (induction ds) (auto split: if_splits prod.splits)

lemma update_page_map:
  assumes "get_page db pid = Some page"
    and "\<And>nv. g (page\<lparr>sections := secs, version := nv, updated_at := now\<rparr>) = g page"
    and "update_page db now pid secs = Inr (res, db')"
  shows "map g (pages_collection db') = map g (pages_collection db)"
proof -
  from assms(1,3) obtain nv ds' where
    u: "find_one_and_update (has_page_id pid)
          (\<lambda>d. d\<lparr>sections := secs, version := nv, updated_at := now\<rparr>)
          (pages_collection db) = (res, ds')"
    "db' = db\<lparr>pages_collection := ds'\<rparr>"
    by (auto simp: update_page_def split: sum.splits prod.splits)
  have "find (has_page_id pid) (pages_collection db) = Some page"
    using assms(1) by (simp add: get_page_def)
  from find_one_and_update_map[where g = g and f = "\<lambda>d. d\<lparr>sections := secs, version := nv, updated_at := now\<rparr>", OF this assms(2)]
  show ?thesis
    by (simp add: u)
qed

lemma filter_dict_set:
  "filter (\<lambda>kv. fst kv \<noteq> k) (dict_set kvs k v) = filter (\<lambda>kv. fst kv \<noteq> k) kvs"
  by (induction kvs k v rule: dict_set.induct) auto

lemma map_of_filter_other:
  "k \<noteq> k' \<Longrightarrow> map_of (filter (\<lambda>kv. fst kv \<noteq> k') kvs) k = map_of kvs k"
  by (induction kvs) auto

lemma section_field_without_data:
  "k \<noteq> ''data'' \<Longrightarrow> section_field k (without_data s) = section_field k s"
  by (cases s) (simp_all add: section_field_def without_data_def map_of_filter_other)

lemma identity_fields_without_data:
  "identity_fields (sections_without_data secs) = identity_fields secs"
  by (cases secs)
     (simp_all add: identity_fields_def sections_without_data_def section_field_without_data)

lemma assign_first_shape:
  "assign_first xs sid v = Inr (Some xs') \<Longrightarrow>
   \<exists>i kvs d. i < length xs \<and> xs ! i = JObj kvs \<and> map_of kvs ''id'' = Some (JStr sid) \<and>
     v = Inr d \<and> xs' = xs[i := JObj (dict_set kvs ''data'' d)]"
proof (induction xs arbitrary: xs')
  case Nil
  then show ?case by simp
next
  case (Cons s rest)
  from Cons.prems obtain i0 where i0: "py_getitem s ''id'' = Inr i0"
    by (auto split: sum.splits)
  then obtain kvs where s: "s = JObj kvs" "map_of kvs ''id'' = Some i0"
    by (auto simp: py_getitem_def split: json.splits option.splits)
  show ?case
  proof (cases "i0 = JStr sid")
    case True
    with Cons.prems i0 s obtain d where "v = Inr d" "xs' = JObj (dict_set kvs ''data'' d) # rest"
      by (auto simp: py_setitem_def split: sum.splits)
    with s True show ?thesis
      by (intro exI[of _ 0] exI[of _ kvs] exI[of _ d]) simp
  next
    case False
    with Cons.prems i0 obtain rest' where r: "assign_first rest sid v = Inr (Some rest')"
      "xs' = s # rest'"
      by (auto split: sum.splits option.splits)
    from Cons.IH[OF r(1)] obtain i kvs' d where
      "i < length rest" "rest ! i = JObj kvs'" "map_of kvs' ''id'' = Some (JStr sid)"
      "v = Inr d" "rest' = rest[i := JObj (dict_set kvs' ''data'' d)]"
      by blast
    with r(2) show ?thesis
      by (intro exI[of _ "Suc i"] exI[of _ kvs'] exI[of _ d]) simp
  qed
qed

lemma assign_first_without_data:
  assumes "assign_first xs sid v = Inr (Some xs')"
  shows "map without_data xs' = map without_data xs"
proof -
  from assign_first_shape[OF assms] obtain i kvs d where
    i: "i < length xs" "xs ! i = JObj kvs" "xs' = xs[i := JObj (dict_set kvs ''data'' d)]"
    by blast
  have "without_data (JObj (dict_set kvs ''data'' d)) = without_data (xs ! i)"
    by (simp add: without_data_def i(2) filter_dict_set)
  then show ?thesis
    unfolding i(3) by (simp add: map_update list_update_same_conv i(1))
qed

lemma after_loop_without_data:
  assumes "iterate secs = Inr xs" and "assign_first xs sid v = Inr (Some xs')"
  shows "sections_without_data (after_loop secs xs') = sections_without_data secs"
  using assms assign_first_without_data[OF assms(2)]
  by (cases secs) (simp_all add: after_loop_def sections_without_data_def iterate_def)

lemma find_section_assign_first:
  "find_section xs sid = Inr (Some sec) \<Longrightarrow> \<exists>xs'. assign_first xs sid (Inr d) = Inr (Some xs')"
proof (induction xs)
  case Nil
  then show ?case by simp
next
  case (Cons s rest)
  from Cons.prems obtain i0 where i0: "py_getitem s ''id'' = Inr i0"
    by (auto split: sum.splits)
  then obtain kvs where s: "s = JObj kvs"
    by (auto simp: py_getitem_def split: json.splits option.splits)
  show ?case
  proof (cases "i0 = JStr sid")
    case True
    with i0 s show ?thesis by (simp add: py_setitem_def)
  next
    case False
    with Cons.prems i0 have "find_section rest sid = Inr (Some sec)" by simp
    from Cons.IH[OF this] obtain xs' where "assign_first rest sid (Inr d) = Inr (Some xs')"
      by blast
    with False i0 show ?thesis by simp
  qed
qed

lemma find_section_is_dict:
  "find_section xs sid = Inr (Some sec) \<Longrightarrow>
   \<exists>kvs. sec = JObj kvs \<and> map_of kvs ''id'' = Some (JStr sid) \<and> sec \<in> set xs"
proof (induction xs)
  case Nil
  then show ?case by simp
next
  case (Cons s rest)
  from Cons.prems obtain i0 where i0: "py_getitem s ''id'' = Inr i0"
    by (auto split: sum.splits)
  then obtain kvs where s: "s = JObj kvs" "map_of kvs ''id'' = Some i0"
    by (auto simp: py_getitem_def split: json.splits option.splits)
  show ?case
  proof (cases "i0 = JStr sid")
    case True
    with Cons.prems i0 s show ?thesis by auto
  next
    case False
    with Cons.prems i0 have "find_section rest sid = Inr (Some sec)" by simp
    from Cons.IH[OF this] show ?thesis by auto
  qed
qed



lemma regenerate_endpoint_cases:
  assumes "regenerate_section_endpoint env now db pid request = (sent, resp, db')"
  shows "(db' = db \<and> (\<exists>h. resp = Inl h)) \<or>
         (\<exists>page xs sec new_section changed res.
            get_page db pid = Some page \<and> iterate (sections page) = Inr xs \<and>
            find_section xs (section_id request) = Inr (Some sec) \<and>
            regenerate_section env sec (dict_get (data request) ''context'' (JObj [])) =
              (sent, Inr new_section) \<and>
            assign_first xs (section_id request) (py_getitem new_section ''data'') = Inr changed \<and>
            update_page db now pid
              (case changed of None \<Rightarrow> sections page
               | Some xs' \<Rightarrow> after_loop (sections page) xs') = Inr (res, db') \<and>
            (\<forall>r. resp = Inr r \<longrightarrow> res \<noteq> None))"
proof (cases "get_page db pid")
  case None
  with assms show ?thesis by (auto simp: regenerate_section_endpoint_def)
next
  case (Some page)
  note page = Some
  show ?thesis
  proof (cases "iterate (sections page)")
    case (Inl e)
    with assms page show ?thesis by (auto simp: regenerate_section_endpoint_def)
  next
    case (Inr xs)
    note xs = Inr
    show ?thesis
    proof (cases "find_section xs (section_id request)")
      case (Inl e)
      with assms page xs show ?thesis by (auto simp: regenerate_section_endpoint_def)
    next
      case (Inr found)
      show ?thesis
      proof (cases found)
        case None
        with assms page xs Inr show ?thesis by (auto simp: regenerate_section_endpoint_def)
      next
        case (Some sec)
        note sec = Inr[unfolded Some]
        show ?thesis
        proof (cases "truthy sec")
          case False
          with assms page xs sec show ?thesis by (auto simp: regenerate_section_endpoint_def)
        next
          case True
          obtain sent0 result where
            g: "regenerate_section env sec (dict_get (data request) ''context'' (JObj [])) =
                  (sent0, result)"
            by (cases "regenerate_section env sec (dict_get (data request) ''context'' (JObj []))")
          show ?thesis
          proof (cases result)
            case (Inl e)
            with assms page xs sec True g show ?thesis
              by (auto simp: regenerate_section_endpoint_def Let_def)
          next
            case (Inr new_section)
            note ns = Inr
            show ?thesis
            proof (cases "assign_first xs (section_id request) (py_getitem new_section ''data'')")
              case (Inl e)
              with assms page xs sec True g ns show ?thesis
                by (auto simp: regenerate_section_endpoint_def Let_def)
            next
              case (Inr changed)
              note ch = Inr
              show ?thesis
              proof (cases "update_page db now pid
                  (case changed of None \<Rightarrow> sections page
                   | Some xs' \<Rightarrow> after_loop (sections page) xs')")
                case (Inl e)
                with assms page xs sec True g ns ch show ?thesis
                  by (auto simp: regenerate_section_endpoint_def Let_def)
              next
                case (Inr p)
                obtain res db2 where p: "p = (res, db2)" by (cases p)
                with assms page xs sec True g ns ch Inr
                have "sent = sent0" "db' = db2" "\<forall>r. resp = Inr r \<longrightarrow> res \<noteq> None"
                  by (auto simp: regenerate_section_endpoint_def Let_def split: option.splits)
                with page xs sec g ns ch Inr p show ?thesis
                  by blast
              qed
            qed
          qed
        qed
      qed
    qed
  qed
qed


lemma find_section_assign_first_changed:
  "find_section xs sid = Inr (Some sec) \<Longrightarrow> assign_first xs sid v \<noteq> Inr None"
proof (induction xs)
  case Nil
  then show ?case by simp
next
  case (Cons s rest)
  from Cons.prems obtain i0 where i0: "py_getitem s ''id'' = Inr i0"
    by (auto split: sum.splits)
  show ?case
  proof (cases "i0 = JStr sid")
    case True
    with i0 show ?thesis by (auto split: sum.splits)
  next
    case False
    with Cons.prems i0 have "find_section rest sid = Inr (Some sec)" by simp
    from Cons.IH[OF this] False i0 show ?thesis
      by (auto split: sum.splits option.splits)
  qed
qed

lemma iterate_assign_first_list:
  assumes "iterate secs = Inr xs" and "assign_first xs sid v = Inr (Some xs')"
  shows "secs = JArr xs"
proof -
  from assign_first_shape[OF assms(2)] obtain i kvs where i: "i < length xs" "xs ! i = JObj kvs"
    by blast
  then have "JObj kvs \<in> set xs"
    by (metis nth_mem)
  with assms(1) show ?thesis
    by (cases secs) (auto simp: iterate_def)
qed

lemma view_after_loop:
  assumes "iterate secs = Inr xs" and "assign_first xs sid v = Inr changed"
  shows "sections_without_data
           (case changed of None \<Rightarrow> secs | Some xs' \<Rightarrow> after_loop secs xs') =
         sections_without_data secs"
  using assms after_loop_without_data[OF assms(1)]
  by (cases changed) auto

lemma regenerate_step_view:
  "map (\<lambda>d. (page_id d, identity_fields (sections d), sections_without_data (sections d)))
     (pages_collection (snd (snd (regenerate_section_endpoint env now db pid request)))) =
   map (\<lambda>d. (page_id d, identity_fields (sections d), sections_without_data (sections d)))
     (pages_collection db)"
proof -
  let ?g = "\<lambda>d. (page_id d, identity_fields (sections d), sections_without_data (sections d))"
  obtain sent resp db' where r:
    "regenerate_section_endpoint env now db pid request = (sent, resp, db')"
    by (cases "regenerate_section_endpoint env now db pid request")
  from regenerate_endpoint_cases[OF r] consider
    (same) "db' = db"
  | (upd) page xs changed res new_section where
      "get_page db pid = Some page" "iterate (sections page) = Inr xs"
      "assign_first xs (section_id request) (py_getitem new_section ''data'') = Inr changed"
      "update_page db now pid
         (case changed of None \<Rightarrow> sections page
          | Some xs' \<Rightarrow> after_loop (sections page) xs') = Inr (res, db')"
    by (elim disjE exE conjE) auto
  then have "map ?g (pages_collection db') = map ?g (pages_collection db)"
  proof cases
    case same
    then show ?thesis by simp
  next
    case upd
    let ?secs = "case changed of None \<Rightarrow> sections page
                 | Some xs' \<Rightarrow> after_loop (sections page) xs'"
    have w: "sections_without_data ?secs = sections_without_data (sections page)"
      using upd(2,3) by (rule view_after_loop)
    have "identity_fields ?secs = identity_fields (sections_without_data ?secs)"
      by (simp add: identity_fields_without_data)
    also have "\<dots> = identity_fields (sections page)"
      unfolding w by (simp add: identity_fields_without_data)
    finally have i: "identity_fields ?secs = identity_fields (sections page)" .
    have "?g (page\<lparr>sections := ?secs, version := nv, updated_at := now\<rparr>) = ?g page" for nv
      using w i by simp
    from update_page_map[where g = ?g, OF upd(1) this upd(4)] show ?thesis .
  qed
  then show ?thesis by (simp add: r)
qed

lemma demo_get_page: "get_page demo_store ''landing-1'' = Some demo_document"
  by code_simp

lemma demo_version: "int_value (version demo_document) = Some 1"
  by code_simp


lemma demo_regenerate_run:
  "regenerate_section_endpoint demo_gen_env 20 demo_store ''landing-1'' demo_regenerate_request =
     (fst (regenerate_section_endpoint demo_gen_env 20 demo_store ''landing-1''
             demo_regenerate_request),
      Inr (MutationResponse ''Section regenerated successfully'' ''landing-1'' (JInt 2)),
      snd (snd (regenerate_section_endpoint demo_gen_env 20 demo_store ''landing-1''
                  demo_regenerate_request)))"
  by code_simp

lemma demo_reorder_run:
  "reorder_sections 20 demo_store ''landing-1'' [] =
     (Inr (MutationResponse ''Sections reordered successfully'' ''landing-1'' (JInt 2)),
      snd (reorder_sections 20 demo_store ''landing-1'' []))"
  by code_simp

lemma user_input_no_url: "dict_get (user_input_of request) ''url'' JNull = JNull"
  by (simp add: user_input_of_def dict_get_def)

lemma generate_page_spec_sent:
  "fst (generate_page_spec env u1 (user_input_of request) crawled) =
     [chat_request_of
        (build_landing_page_prompt (py_repr env) u1 (user_input_of request) None) 2500]"
  by (simp add: generate_page_spec_def Let_def user_input_no_url)

lemma generate_page_spec_result:
  "snd (generate_page_spec env u1 (user_input_of request) crawled) =
     (case completion env
             (chat_request_of
                (build_landing_page_prompt (py_repr env) u1 (user_input_of request) None) 2500) of
        Inl m \<Rightarrow> Inl (Exception ''Error generating page spec: '' (ProviderError m))
      | Inr None \<Rightarrow> Inl (Exception ''Error generating page spec: '' TypeError)
      | Inr (Some response_text) \<Rightarrow>
          (case json_loads env response_text of
             Inl m \<Rightarrow>
               Inl (ValueError ''Failed to parse LLM response as JSON: '' (JSONDecodeError m))
           | Inr page_spec \<Rightarrow> Inr page_spec))"
  by (simp add: generate_page_spec_def Let_def user_input_no_url)

lemma generate_landing_page_sent:
  "fst (generate_landing_page env u1 u2 n1 n2 db request) =
     [chat_request_of
        (build_landing_page_prompt (py_repr env) u1 (user_input_of request) None) 2500]"
  unfolding generate_landing_page_def Let_def
  by (simp add: generate_page_spec_sent split: sum.splits prod.splits)

lemma generate_landing_page_failed:
  assumes "snd (generate_page_spec env u1 (user_input_of request) (request_crawl env request)) = Inl e"
  shows "generate_landing_page env u1 u2 n1 n2 db request =
           (fst (generate_page_spec env u1 (user_input_of request) (request_crawl env request)),
            Inl (generate_error e), db)"
  using assms by (simp add: generate_landing_page_def Let_def)

lemma save_page_appends:
  "save_page db n1 n2 spec uc cc = Inr (saved, db') \<Longrightarrow>
   pages_collection db' = pages_collection db @ [saved]"
  by (auto simp: save_page_def insert_one_def Let_def split: json.splits if_splits)

lemma generate_landing_page_changed:
  assumes "generate_landing_page env u1 u2 n1 n2 db request = (sent, response, db')"
    and "db' \<noteq> db"
  shows "\<exists>page_spec saved.
           snd (generate_page_spec env u1 (user_input_of request) (request_crawl env request)) =
             Inr page_spec \<and>
           pages_collection db' = pages_collection db @ [saved]"
proof (cases "snd (generate_page_spec env u1 (user_input_of request) (request_crawl env request))")
  case (Inl e)
  from generate_landing_page_failed[OF this] assms show ?thesis by simp
next
  case (Inr page_spec)
  with assms obtain spec2 saved where
    "save_page db n1 n2 spec2 (user_input_of request) (request_crawl env request) = Inr (saved, db')"
    by (auto simp: generate_landing_page_def Let_def split: sum.splits prod.splits)
  from save_page_appends[OF this] Inr show ?thesis by blast
qed

lemma generate_page_spec_parsed:
  assumes "snd (generate_page_spec env u1 (user_input_of request) crawled) = Inr page_spec"
  shows "\<exists>text.
           completion env
             (chat_request_of
                (build_landing_page_prompt (py_repr env) u1 (user_input_of request) None) 2500) =
             Inr (Some text) \<and>
           json_loads env text = Inr page_spec"
  using assms unfolding generate_page_spec_result
  by (auto split: sum.splits option.splits)

lemma regenerate_section_parsed:
  assumes "regenerate_section env sec ctx = (sent, Inr new_section)"
  shows "\<exists>req text. sent = [req] \<and> completion env req = Inr (Some text) \<and>
           json_loads env text = Inr new_section"
  using assms
  by (auto simp: regenerate_section_def Let_def split: json.splits sum.splits option.splits)

lemma regenerate_endpoint_failed:
  assumes "get_page db pid = Some page" and "iterate (sections page) = Inr xs"
    and "find_section xs (section_id rq) = Inr (Some sec)"
    and "snd (regenerate_section env sec (dict_get (data rq) ''context'' (JObj []))) = Inl e"
  shows "snd (regenerate_section_endpoint env now db pid rq) = (Inl (regenerate_error e), db)"
proof -
  from find_section_is_dict[OF assms(3)] have "truthy sec" by auto
  with assms show ?thesis
    by (simp add: regenerate_section_endpoint_def Let_def)
qed

lemma sublist_line_of_block:
  assumes "l \<in> set block" and "before \<noteq> []" and "after \<noteq> []"
  shows "sublist (sep @ l @ sep) (py_join sep (before @ block @ after))"
proof -
  from assms(1) obtain as bs where b: "block = as @ l # bs"
    by (auto simp: in_set_conv_decomp)
  have "py_join sep (before @ block @ after) = py_join sep ((before @ as) @ l # (bs @ after))"
    by (simp add: b)
  also have "sublist (sep @ l @ sep) \<dots>"
    using assms(2,3) by (intro sublist_py_join_mid) simp_all
  finally show ?thesis .
qed

lemma demo_links_home:
  "extract_internal_links demo_crawl_env ''https://ex.com'' (html demo_home_page) =
     Some [''https://ex.com/a'', ''https://ex.com/b'', ''https://ex.com/c'']"
  by code_simp

lemma demo_links_odd_page:
  "extract_internal_links demo_crawl_env ''https://odd.example'' (html demo_odd_page) = None"
  by code_simp

lemma demo_slice:
  "slice_to [''https://ex.com/a'', ''https://ex.com/b'', ''https://ex.com/c''] 2 =
     [''https://ex.com/a''] @ ''https://ex.com/b'' # []"
  by code_simp

lemma demo_fetch_about:
  "List.map_filter (fetch_page_data demo_crawl_env) [''https://ex.com/a''] = [demo_about_page]"
  by code_simp

lemma demo_pages:
  "home # List.map_filter (fetch_page_data demo_crawl_env)
      (slice_to (case extract_internal_links demo_crawl_env ''https://ex.com'' (html demo_home_page) of
                   None \<Rightarrow> [] | Some found \<Rightarrow> found) 2) = [home, demo_about_page]"
  unfolding demo_links_home by code_simp

lemma find_section_split:
  assumes "find_section before sid = Inr None" and "map_of kvs ''id'' = Some (JStr sid)"
  shows "find_section (before @ JObj kvs # after) sid = Inr (Some (JObj kvs))"
  using assms
proof (induction before)
  case Nil
  then show ?case by (simp add: py_getitem_def)
next
  case (Cons s rest)
  from Cons.prems(1) obtain i where i: "py_getitem s ''id'' = Inr i" "i \<noteq> JStr sid"
      "find_section rest sid = Inr None"
    by (auto split: sum.splits if_splits)
  from Cons.IH[OF i(3) Cons.prems(2)] i(1,2) show ?case by simp
qed

lemma assign_first_split:
  assumes "find_section before sid = Inr None" and "map_of kvs ''id'' = Some (JStr sid)"
  shows "assign_first (before @ JObj kvs # after) sid v =
           (case v of
              Inl e \<Rightarrow> Inl e
            | Inr d \<Rightarrow> Inr (Some (before @ JObj (dict_set kvs ''data'' d) # after)))"
  using assms
proof (induction before)
  case Nil
  then show ?case by (simp add: py_getitem_def py_setitem_def split: sum.splits)
next
  case (Cons s rest)
  from Cons.prems(1) obtain i where i: "py_getitem s ''id'' = Inr i" "i \<noteq> JStr sid"
      "find_section rest sid = Inr None"
    by (auto split: sum.splits if_splits)
  from Cons.IH[OF i(3) Cons.prems(2)] i(1,2) show ?case by (simp split: sum.splits)
qed

lemma update_page_exact:
  assumes "get_page db pid = Some page" and "int_value (version page) = Some v"
  shows "\<exists>db'. update_page db now pid secs =
             Inr (Some (page\<lparr>sections := secs, version := JInt (v + 1), updated_at := now\<rparr>), db') \<and>
           get_page db' pid =
             Some (page\<lparr>sections := secs, version := JInt (v + 1), updated_at := now\<rparr>) \<and>
           page_id_unique db' = page_id_unique db \<and>
           length (pages_collection db') = length (pages_collection db)"
proof -
  let ?f = "\<lambda>d. d\<lparr>sections := secs, version := JInt (v + 1), updated_at := now\<rparr>"
  have f: "find (has_page_id pid) (pages_collection db) = Some page"
    using assms(1) by (simp add: get_page_def)
  then have "has_page_id pid page"
    by (auto simp: find_Some_iff)
  then have "has_page_id pid (?f page)"
    by (simp add: has_page_id_def)
  from find_one_and_update_found[where f = ?f and d = page, OF f this] obtain ds' where
    ds': "find_one_and_update (has_page_id pid) ?f (pages_collection db) = (Some (?f page), ds')"
    "find (has_page_id pid) ds' = Some (?f page)" "length ds' = length (pages_collection db)"
    by blast
  with assms show ?thesis
    by (simp add: update_page_def plus_one_def get_page_def)
qed

lemma regenerate_endpoint_success:
  assumes "get_page db pid = Some page"
    and "sections page = JArr (before @ JObj kvs # after)"
    and "find_section before (section_id request) = Inr None"
    and "map_of kvs ''id'' = Some (JStr (section_id request))"
    and "regenerate_section env (JObj kvs) (dict_get (data request) ''context'' (JObj [])) =
           (sent, Inr new_section)"
    and "py_getitem new_section ''data'' = Inr new_data"
    and "int_value (version page) = Some v"
  shows "fst (regenerate_section_endpoint env now db pid request) = sent \<and>
         fst (snd (regenerate_section_endpoint env now db pid request)) =
           Inr (MutationResponse ''Section regenerated successfully'' pid (JInt (v + 1))) \<and>
         get_page (snd (snd (regenerate_section_endpoint env now db pid request))) pid =
           Some (page\<lparr>sections := JArr (before @ JObj (dict_set kvs ''data'' new_data) # after),
                       version := JInt (v + 1), updated_at := now\<rparr>)"
proof -
  let ?xs = "before @ JObj kvs # after"
  let ?xs' = "before @ JObj (dict_set kvs ''data'' new_data) # after"
  have it: "iterate (sections page) = Inr ?xs"
    by (simp add: assms(2) iterate_def)
  have fs: "find_section ?xs (section_id request) = Inr (Some (JObj kvs))"
    using assms(3,4) by (rule find_section_split)
  have tr: "kvs \<noteq> []"
    using assms(4) by auto
  have af: "assign_first ?xs (section_id request) (py_getitem new_section ''data'') =
      Inr (Some ?xs')"
    using assign_first_split[OF assms(3,4)] assms(6) by simp
  have al: "after_loop (sections page) ?xs' = JArr ?xs'"
    by (simp add: after_loop_def assms(2))
  from update_page_exact[OF assms(1,7), of now "JArr ?xs'"] obtain db' where
    up: "update_page db now pid (JArr ?xs') =
           Inr (Some (page\<lparr>sections := JArr ?xs', version := JInt (v + 1), updated_at := now\<rparr>), db')"
        "get_page db' pid =
           Some (page\<lparr>sections := JArr ?xs', version := JInt (v + 1), updated_at := now\<rparr>)"
    by blast
  have "regenerate_section_endpoint env now db pid request =
      (sent, Inr (MutationResponse ''Section regenerated successfully'' pid (JInt (v + 1))), db')"
    unfolding regenerate_section_endpoint_def
    by (simp add: assms(1,5) it fs tr af al up(1) Let_def)
  with up(2) show ?thesis by simp
qed



lemma regenerate_endpoint_error_store:
  assumes "fst (snd (regenerate_section_endpoint env now db pid request)) = Inl h"
  shows "snd (snd (regenerate_section_endpoint env now db pid request)) = db"
proof -
  obtain sent resp db' where r:
    "regenerate_section_endpoint env now db pid request = (sent, resp, db')"
    by (cases "regenerate_section_endpoint env now db pid request")
  from regenerate_endpoint_cases[OF r] show ?thesis
  proof (elim disjE exE conjE)
    assume "db' = db"
    with r show ?thesis by simp
  next
    fix page xs sec new_section changed res
    assume a: "get_page db pid = Some page" "iterate (sections page) = Inr xs"
      "find_section xs (section_id request) = Inr (Some sec)"
      "regenerate_section env sec (dict_get (data request) ''context'' (JObj [])) =
         (sent, Inr new_section)"
      "assign_first xs (section_id request) (py_getitem new_section ''data'') = Inr changed"
      "update_page db now pid
         (case changed of None \<Rightarrow> sections page | Some xs' \<Rightarrow> after_loop (sections page) xs') =
         Inr (res, db')"
    from update_page_found[OF a(1,6)] obtain up where up: "res = Some up"
      by blast
    from find_section_is_dict[OF a(3)] have "truthy sec" by auto
    with a up have "\<exists>x. regenerate_section_endpoint env now db pid request = (sent, Inr x, db')"
      unfolding regenerate_section_endpoint_def
      by (simp add: Let_def)
    with assms show ?thesis by auto
  qed
qed

lemma demo_generate_run:
  "snd (generate_landing_page demo_gen_env demo_uuid demo_uuid 10 11 demo_empty_store demo_request) =
     (Inr (PageSpecResponse (JStr ''landing-1'') (JInt 1) (JArr [demo_hero])), demo_store)"
  by code_simp

lemma demo_truncated_generate:
  "snd (generate_page_spec demo_truncating_env demo_uuid (user_input_of demo_request)
          (request_crawl demo_truncating_env demo_request)) =
     Inl (ValueError ''Failed to parse LLM response as JSON: '' (JSONDecodeError ''Expecting value''))"
  by code_simp

lemma demo_truncated_regenerate:
  "snd (regenerate_section demo_truncating_env demo_hero
          (dict_get (data demo_regenerate_request) ''context'' (JObj []))) =
     Inl (ValueError ''Failed to parse LLM response as JSON: '' (JSONDecodeError ''Expecting value''))"
  by code_simp

lemma demo_find_hero:
  "iterate (sections demo_document) = Inr [demo_hero] \<and>
   find_section [demo_hero] (section_id demo_regenerate_request) = Inr (Some demo_hero)"
  by code_simp

lemma demo_store_changed: "demo_store \<noteq> demo_empty_store"
  by code_simp

lemma demo_regenerate_changed:
  "snd (snd (regenerate_section_endpoint demo_gen_env 20 demo_store ''landing-1''
               demo_regenerate_request)) \<noteq> demo_store"
  by code_simp

lemma demo_regenerate_section:
  "snd (regenerate_section demo_gen_env (JObj demo_hero_fields)
          (dict_get (data demo_regenerate_request) ''context'' (JObj []))) = Inr demo_new_section"
  by code_simp

lemma demo_new_data:
  "py_getitem demo_new_section ''data'' = Inr (JObj [(''headline'', JStr ''New'')])"
  by code_simp

lemma demo_failing_generate:
  "completion demo_failing_env
     (chat_request_of
        (build_landing_page_prompt (py_repr demo_failing_env) demo_uuid
           (user_input_of demo_request) None) 2500) = Inl ''Request timed out.''"
  by (simp add: demo_failing_env_def)

lemma demo_truncating_generate:
  "completion demo_truncating_env
     (chat_request_of
        (build_landing_page_prompt (py_repr demo_truncating_env) demo_uuid
           (user_input_of demo_request) None) 2500) = Inr (Some ''{\"pageId\": '')"
  by (simp add: demo_truncating_env_def)

lemma demo_truncating_loads:
  "json_loads demo_truncating_env ''{\"pageId\": '' = Inl ''Expecting value''"
  by code_simp


lemma map_of_dict_set:
  "map_of (dict_set kvs k v) k' = (if k' = k then Some v else map_of kvs k')"
  by (induction kvs k v rule: dict_set.induct) auto

lemma regenerate_times_view:
  "map (\<lambda>d. (page_id d, identity_fields (sections d), sections_without_data (sections d)))
     (pages_collection (regenerate_times calls db pid sid)) =
   map (\<lambda>d. (page_id d, identity_fields (sections d), sections_without_data (sections d)))
     (pages_collection db)"
proof (induction calls arbitrary: db)
  case Nil
  show ?case by simp
next
  case (Cons call calls)
  obtain env' now' request_data where c: "call = (env', now', request_data)"
    by (cases call)
  show ?case
    unfolding c regenerate_times.simps Cons.IH
    by (rule regenerate_step_view)
qed

lemma demo_sections: "sections demo_document = JArr ([] @ JObj demo_hero_fields # [])"
  by (simp add: demo_document_def demo_hero_def)

lemma demo_hero_id: "map_of demo_hero_fields ''id'' = Some (JStr (section_id demo_regenerate_request))"
  by code_simp

lemma demo_hero_changed:
  "dict_set demo_hero_fields ''data'' (JObj [(''headline'', JStr ''New'')]) =
     [(''id'', JStr ''hero-1''), (''type'', JStr ''hero''), (''order'', JInt 0),
      (''data'', JObj [(''headline'', JStr ''New'')])]"
  by code_simp


lemma generate_landing_page_saved:
  assumes "snd (snd (generate_landing_page env u1 u2 n1 n2 db request)) \<noteq> db"
  shows "\<exists>text page_spec spec1 spec2 saved.
           completion env
             (chat_request_of
                (build_landing_page_prompt (py_repr env) u1 (user_input_of request) None) 2500) =
             Inr (Some text) \<and>
           json_loads env text = Inr page_spec \<and>
           assign_default page_spec ''pageId'' (JStr (''landing-'' @ take 8 u2)) = Inr spec1 \<and>
           assign_default spec1 ''version'' (JInt 1) = Inr spec2 \<and>
           save_page db n1 n2 spec2 (user_input_of request) (request_crawl env request) =
             Inr (saved, snd (snd (generate_landing_page env u1 u2 n1 n2 db request)))"
proof (cases "snd (generate_page_spec env u1 (user_input_of request) (request_crawl env request))")
  case (Inl e)
  from generate_landing_page_failed[OF this] assms show ?thesis by simp
next
  case (Inr page_spec)
  from generate_page_spec_parsed[OF Inr] obtain reply where
    t: "completion env
          (chat_request_of
             (build_landing_page_prompt (py_repr env) u1 (user_input_of request) None) 2500) =
          Inr (Some reply)" "json_loads env reply = Inr page_spec"
    by blast
  from assms Inr obtain spec1 spec2 saved where
    "assign_default page_spec ''pageId'' (JStr (''landing-'' @ take 8 u2)) = Inr spec1"
    "assign_default spec1 ''version'' (JInt 1) = Inr spec2"
    "save_page db n1 n2 spec2 (user_input_of request) (request_crawl env request) =
       Inr (saved, snd (snd (generate_landing_page env u1 u2 n1 n2 db request)))"
    by (auto simp: generate_landing_page_def Let_def split: sum.splits prod.splits)
  with t show ?thesis by blast
qed

lemma regenerate_endpoint_changed:
  assumes "snd (snd (regenerate_section_endpoint env now db pid rq)) \<noteq> db"
  shows "\<exists>req text new_section r.
           fst (regenerate_section_endpoint env now db pid rq) = [req] \<and>
           completion env req = Inr (Some text) \<and>
           json_loads env text = Inr new_section \<and>
           fst (snd (regenerate_section_endpoint env now db pid rq)) = Inr r"
proof -
  obtain sent resp db' where r:
    "regenerate_section_endpoint env now db pid rq = (sent, resp, db')"
    by (cases "regenerate_section_endpoint env now db pid rq")
  with assms have ne: "db' \<noteq> db" by simp
  with regenerate_endpoint_cases[OF r]
  obtain sec ctx new_section where "regenerate_section env sec ctx = (sent, Inr new_section)"
    by auto
  from regenerate_section_parsed[OF this] obtain req reply where
    p: "sent = [req]" "completion env req = Inr (Some reply)" "json_loads env reply = Inr new_section"
    by blast
  have "\<exists>x. resp = Inr x"
  proof (cases resp)
    case (Inl h)
    with r have "fst (snd (regenerate_section_endpoint env now db pid rq)) = Inl h" by simp
    from regenerate_endpoint_error_store[OF this] r ne show ?thesis by simp
  next
    case (Inr x)
    then show ?thesis by blast
  qed
  with p r show ?thesis by auto
qed

lemma demo_generate_changed:
  "snd (snd (generate_landing_page demo_gen_env demo_uuid demo_uuid 10 11 demo_empty_store
               demo_request)) \<noteq> demo_empty_store"
  using demo_generate_run demo_store_changed by simp




lemma sublist_around_char:
  assumes "c \<notin> set p"
  shows "sublist p (xs @ c # ys) \<longleftrightarrow> sublist p xs \<or> sublist p ys"
proof -
  have 1: "prefix p (c # ys) \<longleftrightarrow> p = []"
    using assms by (cases p) auto
  have 2: "(\<exists>xs1 xs2. p = xs1 @ xs2 \<and> suffix xs1 xs \<and> prefix xs2 (c # ys)) \<longleftrightarrow> suffix p xs"
  proof
    assume "\<exists>xs1 xs2. p = xs1 @ xs2 \<and> suffix xs1 xs \<and> prefix xs2 (c # ys)"
    then obtain xs1 xs2 where x: "p = xs1 @ xs2" "suffix xs1 xs" "prefix xs2 (c # ys)"
      by blast
    from x(1,3) assms have "xs2 = []"
      by (cases xs2) auto
    with x show "suffix p xs" by simp
  next
    assume "suffix p xs"
    then show "\<exists>xs1 xs2. p = xs1 @ xs2 \<and> suffix xs1 xs \<and> prefix xs2 (c # ys)"
      by (intro exI[of _ p] exI[of _ "[]"]) simp
  qed
  show ?thesis
    unfolding sublist_append sublist_Cons_right 1 2
    by (auto intro: suffix_imp_sublist)
qed

lemma sublist_py_join_char:
  assumes "c \<notin> set p" and "p \<noteq> []"
  shows "sublist p (py_join [c] ls) \<longleftrightarrow> list_ex (sublist p) ls"
proof (induction "[c]" ls rule: py_join.induct)
  case 1
  from assms(2) show ?case by simp
next
  case (2 x)
  show ?case by simp
next
  case (3 x y ys)
  have "sublist p (py_join [c] (x # y # ys)) \<longleftrightarrow>
      sublist p x \<or> sublist p (py_join [c] (y # ys))"
    using sublist_around_char[OF assms(1), of x "py_join [c] (y # ys)"] by simp
  with 3 show ?case by simp
qed

lemma sublist_text_lines:
  assumes "CHR 0x0A \<notin> set p" and "p \<noteq> []"
  shows "sublist p (text_lines ls) \<longleftrightarrow> list_ex (sublist p) ls"
  unfolding text_lines_def nl_def using assms by (rule sublist_py_join_char)

lemma demo_prompt_text:
  "build_landing_page_prompt (py_repr demo_gen_env) demo_uuid (user_input_of demo_request) None =
     text_lines demo_prompt_lines"
  by (simp add: build_landing_page_prompt_def Let_def context_blocks_def user_input_of_def
        demo_request_def dict_get_def py_str_def demo_uuid_def demo_prompt_lines_def)

lemma demo_lines_no_marker: "\<not> list_ex (sublist ''BRAND CONTEXT'') demo_prompt_lines"
  by code_simp

lemma demo_request_crawl:
  "request_crawl demo_gen_env demo_request =
     Some (build_brand_context [demo_home_page, demo_about_page])"
  by code_simp

lemma build_landing_page_prompt_embeds:
  assumes "c \<noteq> []"
  shows "sublist c (build_landing_page_prompt repr u ui (Some c))"
proof -
  let ?block = "brand_context_section c @ text_lines tone_instruction_brand"
  have "c \<in> set ['''', ''## BRAND CONTEXT (Crawled from Website)'', c, '''', '''']"
    by simp
  then have "sublist c (brand_context_section c)"
    unfolding brand_context_section_def text_lines_def by (rule sublist_py_join_mem)
  then have 1: "sublist c ?block"
    by (metis sublist_appendI sublist_order.order_trans append_Nil)
  obtain before_lines after_lines where
    "build_landing_page_prompt repr u ui (Some c) = text_lines (before_lines @ ?block # after_lines)"
    using assms
    by (simp add: build_landing_page_prompt_def Let_def context_blocks_def)
       (metis append_Cons append_Nil append_assoc)
  moreover have "sublist ?block (text_lines (before_lines @ ?block # after_lines))"
    unfolding text_lines_def by (rule sublist_py_join_mem) simp
  ultimately show ?thesis
    using 1 by (metis sublist_order.order_trans)
qed

lemma demo_lines_no_home: "\<not> list_ex (sublist ''=== HOME PAGE ==='') demo_prompt_lines"
  by code_simp

lemma demo_lines_no_primary: "\<not> list_ex (sublist ''PRIMARY reference'') demo_prompt_lines"
  by code_simp

section \<open>The prompt composer on incomplete briefs\<close>

text \<open>
  C10. \<^verbatim>\<open>build_landing_page_prompt\<close> is total on every user-input dict, and its result is
  the whole prompt, line by line: the opening block, the four requirements lines, the brand
  block, the guidelines, the \<^verbatim>\<open>pageId\<close> line, the schema, the copyright line and the closing
  block. Each requirements line renders the value of its key, or the default when the key
  is missing: \<^verbatim>\<open>general business\<close> for \<^verbatim>\<open>industry\<close>, \<^verbatim>\<open>professional\<close> for \<^verbatim>\<open>brand_tone\<close>,
  the empty string for \<^verbatim>\<open>offer\<close> and \<^verbatim>\<open>target_audience\<close> (the copyright line then names
  \<^verbatim>\<open>Company\<close>). The prompt is complete for every dict: it runs from the opening sentence
  to the closing instruction and holds the four section headers, the \<^verbatim>\<open>pageId\<close> line and
  the six section types of the schema.
\<close>

theorem build_landing_page_prompt_defaults:
  fixes repr :: "json \<Rightarrow> string" and uuid_hex :: string and user_input :: py_dict
    and crawled_context :: "string option"
    and industry_value offer_value target_audience_value brand_tone_value :: json
  defines "P \<equiv> build_landing_page_prompt repr uuid_hex user_input crawled_context"
  defines "industry_value \<equiv>
    (case map_of user_input ''industry'' of None \<Rightarrow> JStr ''general business'' | Some v \<Rightarrow> v)"
  defines "offer_value \<equiv> (case map_of user_input ''offer'' of None \<Rightarrow> JStr '''' | Some v \<Rightarrow> v)"
  defines "target_audience_value \<equiv>
    (case map_of user_input ''target_audience'' of None \<Rightarrow> JStr '''' | Some v \<Rightarrow> v)"
  defines "brand_tone_value \<equiv>
    (case map_of user_input ''brand_tone'' of None \<Rightarrow> JStr ''professional'' | Some v \<Rightarrow> v)"
  shows
    "P = text_lines
           (landing_intro @
            [''- Industry: '' @ py_str repr industry_value,
             ''- Offer/Product: '' @ py_str repr offer_value,
             ''- Target Audience: '' @ py_str repr target_audience_value,
             ''- Brand Tone: '' @ py_str repr brand_tone_value,
             '''',
             (case crawled_context of
                Some c \<Rightarrow>
                  if c \<noteq> []
                  then brand_context_section c @ text_lines tone_instruction_brand
                  else tone_instruction_plain (py_str repr brand_tone_value)
              | None \<Rightarrow> tone_instruction_plain (py_str repr brand_tone_value))] @
            landing_guidelines @
            [''  \"pageId\": \"landing-'' @ take 8 uuid_hex @ ''\",''] @
            landing_schema @
            [''        \"copyright\": \"'' @ [CHR 0xA9] @ '' 2025 '' @
               (if truthy offer_value then py_str repr offer_value else ''Company'') @
               ''. All rights reserved.\"''] @
            landing_outro) \<and>
     (map_of user_input ''industry'' = None \<longrightarrow>
        sublist (nl @ ''- Industry: general business'' @ nl) P) \<and>
     (map_of user_input ''offer'' = None \<longrightarrow>
        sublist (nl @ ''- Offer/Product: '' @ nl) P \<and>
        sublist (''\"copyright\": \"'' @ [CHR 0xA9] @ '' 2025 Company. All rights reserved.\"'' @ nl) P) \<and>
     (map_of user_input ''target_audience'' = None \<longrightarrow>
        sublist (nl @ ''- Target Audience: '' @ nl) P) \<and>
     (map_of user_input ''brand_tone'' = None \<longrightarrow>
        sublist (nl @ ''- Brand Tone: professional'' @ nl) P) \<and>
     prefix ''You are an expert landing page designer and copywriter.'' P \<and>
     sublist (nl @ ''## USER REQUIREMENTS'' @ nl) P \<and>
     sublist (nl @ ''## CONTENT GUIDELINES'' @ nl) P \<and>
     sublist (nl @ ''## TECHNICAL REQUIREMENTS'' @ nl) P \<and>
     sublist (nl @ ''Return ONLY valid JSON. No markdown code blocks (```json), no explanatory text, just raw JSON.'' @ nl) P \<and>
     sublist (nl @ ''  \"pageId\": \"landing-'' @ take 8 uuid_hex @ ''\",'' @ nl) P \<and>
     sublist (nl @ ''  \"sections\": ['' @ nl) P \<and>
     sublist (nl @ ''      \"type\": \"hero\",'' @ nl) P \<and>
     sublist (nl @ ''      \"type\": \"features\",'' @ nl) P \<and>
     sublist (nl @ ''      \"type\": \"testimonials\",'' @ nl) P \<and>
     sublist (nl @ ''      \"type\": \"faq\",'' @ nl) P \<and>
     sublist (nl @ ''      \"type\": \"contact\",'' @ nl) P \<and>
     sublist (nl @ ''      \"type\": \"footer\",'' @ nl) P \<and>
     suffix ''Generate the complete landing page JSON now:'' P"
proof -
  define ind where "ind = ''- Industry: '' @ py_str repr industry_value"
  define off where "off = ''- Offer/Product: '' @ py_str repr offer_value"
  define ta where "ta = ''- Target Audience: '' @ py_str repr target_audience_value"
  define bt where "bt = ''- Brand Tone: '' @ py_str repr brand_tone_value"
  define mid where "mid =
    (case crawled_context of
       Some c \<Rightarrow>
         if c \<noteq> []
         then brand_context_section c @ text_lines tone_instruction_brand
         else tone_instruction_plain (py_str repr brand_tone_value)
     | None \<Rightarrow> tone_instruction_plain (py_str repr brand_tone_value))"
  define cp where "cp = ''        \"copyright\": \"'' @ [CHR 0xA9] @ '' 2025 '' @
               (if truthy offer_value then py_str repr offer_value else ''Company'') @
               ''. All rights reserved.\"''"
  define pid where "pid = ''  \"pageId\": \"landing-'' @ take 8 uuid_hex @ ''\",''"
  have cb: "fst (context_blocks (py_str repr brand_tone_value) crawled_context) @
            snd (context_blocks (py_str repr brand_tone_value) crawled_context) = mid"
    by (simp add: context_blocks_def mid_def split: option.splits)
  have P: "P = py_join nl (landing_intro @ [ind, off, ta, bt, [], mid] @ landing_guidelines @
         [pid] @ landing_schema @ [cp] @ landing_outro)"
    unfolding P_def build_landing_page_prompt_def Let_def text_lines_def ind_def off_def ta_def
      bt_def cp_def pid_def industry_value_def offer_value_def target_audience_value_def brand_tone_value_def
      cb[symmetric, unfolded brand_tone_value_def] dict_get_def
    by (simp add: case_prod_beta)
  have intro: "landing_intro \<noteq> []" and outro: "landing_outro \<noteq> []"
    using landing_intro_hd landing_outro_last by simp_all
  have c1: "sublist (nl @ ind @ nl) P"
    using sublist_py_join_mid[of landing_intro "[off, ta, bt, [], mid] @ landing_guidelines @
         [pid] @ landing_schema @ [cp] @ landing_outro" nl ind] intro by (simp add: P)
  have c2: "sublist (nl @ off @ nl) P"
    using sublist_py_join_mid[of "landing_intro @ [ind]" "[ta, bt, [], mid] @ landing_guidelines @
         [pid] @ landing_schema @ [cp] @ landing_outro" nl off] by (simp add: P)
  have c3: "sublist (nl @ ta @ nl) P"
    using sublist_py_join_mid[of "landing_intro @ [ind, off]" "[bt, [], mid] @ landing_guidelines @
         [pid] @ landing_schema @ [cp] @ landing_outro" nl ta] by (simp add: P)
  have c4: "sublist (nl @ bt @ nl) P"
    using sublist_py_join_mid[of "landing_intro @ [ind, off, ta]" "[[], mid] @ landing_guidelines @
         [pid] @ landing_schema @ [cp] @ landing_outro" nl bt] by (simp add: P)
  have c5: "sublist (nl @ cp @ nl) P"
    using sublist_py_join_mid[of "landing_intro @ [ind, off, ta, bt, [], mid] @ landing_guidelines @
         [pid] @ landing_schema" landing_outro nl cp] outro by (simp add: P)
  have c6: "sublist (nl @ pid @ nl) P"
    using sublist_py_join_mid[of "landing_intro @ [ind, off, ta, bt, [], mid] @ landing_guidelines"
         "landing_schema @ [cp] @ landing_outro" nl pid] by (simp add: P)
  have c5': "sublist (drop 8 cp @ nl) P"
  proof -
    have "sublist (drop 8 cp @ nl) (nl @ cp @ nl)"
      unfolding sublist_def
      by (rule exI[of _ "nl @ take 8 cp"], rule exI[of _ "[]"]) simp
    then show ?thesis using c5 sublist_order.order_trans by blast
  qed
  have guide: "sublist (nl @ l @ nl) P" if "l \<in> set landing_guidelines" for l
    using sublist_line_of_block[OF that, of "landing_intro @ [ind, off, ta, bt, [], mid]"
            "[pid] @ landing_schema @ [cp] @ landing_outro" nl]
    by (simp add: P)
  have schema: "sublist (nl @ l @ nl) P" if "l \<in> set landing_schema" for l
    using sublist_line_of_block[OF that,
            of "landing_intro @ [ind, off, ta, bt, [], mid] @ landing_guidelines @ [pid]"
            "[cp] @ landing_outro" nl]
    by (simp add: P)
  have req: "sublist (nl @ ''## USER REQUIREMENTS'' @ nl) P"
  proof -
    have "landing_intro = butlast landing_intro @ [''## USER REQUIREMENTS'']"
      "butlast landing_intro \<noteq> []"
      by (simp_all add: landing_intro_def)
    then have "P = py_join nl (butlast landing_intro @ ''## USER REQUIREMENTS'' #
        ([ind, off, ta, bt, [], mid] @ landing_guidelines @
         [pid] @ landing_schema @ [cp] @ landing_outro))"
      unfolding P by (metis append_Cons append_Nil append_assoc)
    then show ?thesis
      using sublist_py_join_mid[of "butlast landing_intro"
          "[ind, off, ta, bt, [], mid] @ landing_guidelines @
           [pid] @ landing_schema @ [cp] @ landing_outro" nl "''## USER REQUIREMENTS''"]
        \<open>butlast landing_intro \<noteq> []\<close>
      by simp
  qed
  have g1: "''## CONTENT GUIDELINES'' \<in> set landing_guidelines"
    and g2: "''## TECHNICAL REQUIREMENTS'' \<in> set landing_guidelines"
    and g3: "''Return ONLY valid JSON. No markdown code blocks (```json), no explanatory text, just raw JSON.'' \<in> set landing_guidelines"
    by (simp_all add: landing_guidelines_def)
  have s0: "''  \"sections\": ['' \<in> set landing_schema"
    and s1: "''      \"type\": \"hero\",'' \<in> set landing_schema"
    and s2: "''      \"type\": \"features\",'' \<in> set landing_schema"
    and s3: "''      \"type\": \"testimonials\",'' \<in> set landing_schema"
    and s4: "''      \"type\": \"faq\",'' \<in> set landing_schema"
    and s5: "''      \"type\": \"contact\",'' \<in> set landing_schema"
    and s6: "''      \"type\": \"footer\",'' \<in> set landing_schema"
    by (simp_all add: landing_schema_def)
  have pre: "prefix ''You are an expert landing page designer and copywriter.'' P"
  proof -
    have "prefix (hd landing_intro) P"
      unfolding P using prefix_py_join_hd[of "landing_intro @ [ind, off, ta, bt, [], mid] @ landing_guidelines @
         [pid] @ landing_schema @ [cp] @ landing_outro" nl] intro by simp
    moreover have "prefix ''You are an expert landing page designer and copywriter.'' (hd landing_intro)"
      by (simp add: landing_intro_def)
    ultimately show ?thesis by (rule prefix_order.order_trans[rotated])
  qed
  have suf: "suffix ''Generate the complete landing page JSON now:'' P"
    unfolding P using suffix_py_join_last[of "landing_intro @ [ind, off, ta, bt, [], mid] @ landing_guidelines @
         [pid] @ landing_schema @ [cp] @ landing_outro" nl] landing_outro_last by simp
  have d1: "sublist (nl @ ''- Industry: general business'' @ nl) P"
    if "map_of user_input ''industry'' = None"
    using c1 that by (simp add: ind_def industry_value_def py_str_def)
  have d2: "sublist (nl @ ''- Offer/Product: '' @ nl) P"
    if "map_of user_input ''offer'' = None"
    using c2 that by (simp add: off_def offer_value_def py_str_def)
  have d3: "sublist (nl @ ''- Target Audience: '' @ nl) P"
    if "map_of user_input ''target_audience'' = None"
    using c3 that by (simp add: ta_def target_audience_value_def py_str_def)
  have d4: "sublist (nl @ ''- Brand Tone: professional'' @ nl) P"
    if "map_of user_input ''brand_tone'' = None"
    using c4 that by (simp add: bt_def brand_tone_value_def py_str_def)
  have d5: "sublist (''\"copyright\": \"'' @ [CHR 0xA9] @ '' 2025 Company. All rights reserved.\"'' @ nl) P"
    if "map_of user_input ''offer'' = None"
    using c5' that by (simp add: cp_def offer_value_def py_str_def)
  have full: "P = text_lines
           (landing_intro @
            [''- Industry: '' @ py_str repr industry_value,
             ''- Offer/Product: '' @ py_str repr offer_value,
             ''- Target Audience: '' @ py_str repr target_audience_value,
             ''- Brand Tone: '' @ py_str repr brand_tone_value,
             '''',
             (case crawled_context of
                Some c \<Rightarrow>
                  if c \<noteq> []
                  then brand_context_section c @ text_lines tone_instruction_brand
                  else tone_instruction_plain (py_str repr brand_tone_value)
              | None \<Rightarrow> tone_instruction_plain (py_str repr brand_tone_value))] @
            landing_guidelines @
            [''  \"pageId\": \"landing-'' @ take 8 uuid_hex @ ''\",''] @
            landing_schema @
            [''        \"copyright\": \"'' @ [CHR 0xA9] @ '' 2025 '' @
               (if truthy offer_value then py_str repr offer_value else ''Company'') @
               ''. All rights reserved.\"''] @
            landing_outro)"
    unfolding P text_lines_def ind_def off_def ta_def bt_def mid_def cp_def pid_def by simp
  have c6': "sublist (nl @ ''  \"pageId\": \"landing-'' @ take 8 uuid_hex @ ''\",'' @ nl) P"
    using c6 by (simp add: pid_def)
  show ?thesis
    using full d1 d2 d3 d4 d5 pre suf req guide[OF g1] guide[OF g2] guide[OF g3] c6'
      schema[OF s0] schema[OF s1] schema[OF s2] schema[OF s3] schema[OF s4] schema[OF s5]
      schema[OF s6]
    by blast
qed

text \<open>C10, on the empty dict: all four defaults appear.\<close>

theorem build_landing_page_prompt_defaults_witness:
  "sublist (nl @ ''- Industry: general business'' @ nl)
     (build_landing_page_prompt (py_repr demo_gen_env) demo_uuid [] None) \<and>
   sublist (nl @ ''- Offer/Product: '' @ nl)
     (build_landing_page_prompt (py_repr demo_gen_env) demo_uuid [] None) \<and>
   sublist (''\"copyright\": \"'' @ [CHR 0xA9] @ '' 2025 Company. All rights reserved.\"'' @ nl)
     (build_landing_page_prompt (py_repr demo_gen_env) demo_uuid [] None) \<and>
   sublist (nl @ ''- Target Audience: '' @ nl)
     (build_landing_page_prompt (py_repr demo_gen_env) demo_uuid [] None) \<and>
   sublist (nl @ ''- Brand Tone: professional'' @ nl)
     (build_landing_page_prompt (py_repr demo_gen_env) demo_uuid [] None)"
proof -
  have m: "map_of ([] :: py_dict) k = None" for k
    by simp
  note t = build_landing_page_prompt_defaults[where user_input = "[]"
         and repr = "py_repr demo_gen_env" and uuid_hex = demo_uuid and crawled_context = None,
         THEN conjunct2]
  note t1 = t[THEN conjunct1, rule_format, OF m]
  note t2 = t[THEN conjunct2, THEN conjunct1, rule_format, OF m]
  note t3 = t[THEN conjunct2, THEN conjunct2, THEN conjunct1, rule_format, OF m]
  note t4 = t[THEN conjunct2, THEN conjunct2, THEN conjunct2, THEN conjunct1, rule_format, OF m]
  from t1 t2 t3 t4 show ?thesis
    by (intro conjI) (simp_all only: )
qed

section \<open>The context extractor\<close>

text \<open>
  C7. \<^verbatim>\<open>crawl_website\<close> returns a value on every input, and the value is determined as
  follows. A fetch gives a page exactly when the request succeeds. When the request of the
  home page raises, the result is \<^verbatim>\<open>None\<close> and the home page is the only URL requested.
  When it succeeds and the link extraction gives the list \<open>ls\<close>, the URLs requested are the
  home page and the first \<open>max_inner_pages\<close> of \<open>ls\<close>, and the result is the fold of the home
  page followed by those of them that could be fetched. When the link extraction raises,
  the result is the fold of the home page alone. An inner page whose request raises is
  skipped: the candidates after it are still requested, and the pages before and after it
  are kept with the home page.
\<close>

theorem crawl_website_never_raises:
  "fetch_page_data env u =
     (case http_get env u of
        Inl e \<Rightarrow> None
      | Inr s \<Rightarrow>
          Some \<lparr>url = u, title = soup_title s, meta_description = soup_meta_description s,
                headings = soup_headings s, text_content = take 3000 (soup_text s),
                html = soup_str s\<rparr>) \<and>
   (http_get env base_url = Inl e \<longrightarrow> crawl_website env base_url m = ([base_url], None)) \<and>
   (fetch_page_data env base_url = Some home \<and>
    extract_internal_links env base_url (html home) = Some ls \<longrightarrow>
      crawl_website env base_url m =
        (base_url # slice_to ls m,
         Some (build_brand_context
                 (home # List.map_filter (fetch_page_data env) (slice_to ls m))))) \<and>
   (fetch_page_data env base_url = Some home \<and>
    extract_internal_links env base_url (html home) = None \<longrightarrow>
      crawl_website env base_url m = ([base_url], Some (build_brand_context [home]))) \<and>
   (fetch_page_data env base_url = Some home \<and>
    extract_internal_links env base_url (html home) = Some ls \<and>
    slice_to ls m = before @ link # after \<and> http_get env link = Inl e' \<longrightarrow>
      crawl_website env base_url m =
        (base_url # before @ link # after,
         Some (build_brand_context
                 (home # List.map_filter (fetch_page_data env) before @
                         List.map_filter (fetch_page_data env) after))))"
proof (intro conjI impI)
  show "fetch_page_data env u =
     (case http_get env u of
        Inl e \<Rightarrow> None
      | Inr s \<Rightarrow>
          Some \<lparr>url = u, title = soup_title s, meta_description = soup_meta_description s,
                headings = soup_headings s, text_content = take 3000 (soup_text s),
                html = soup_str s\<rparr>)"
    by (simp add: fetch_page_data_def)
next
  assume "http_get env base_url = Inl e"
  then have "fetch_page_data env base_url = None"
    by (simp add: fetch_page_data_def)
  then show "crawl_website env base_url m = ([base_url], None)"
    by (simp add: crawl_website_def crawl_pages_def)
next
  assume "fetch_page_data env base_url = Some home \<and>
    extract_internal_links env base_url (html home) = Some ls"
  then show "crawl_website env base_url m =
        (base_url # slice_to ls m,
         Some (build_brand_context
                 (home # List.map_filter (fetch_page_data env) (slice_to ls m))))"
    by (simp add: crawl_website_def crawl_pages_def Let_def crawl_inner_map_filter)
next
  assume "fetch_page_data env base_url = Some home \<and>
    extract_internal_links env base_url (html home) = None"
  then show "crawl_website env base_url m = ([base_url], Some (build_brand_context [home]))"
    by (simp add: crawl_website_def crawl_pages_def)
next
  assume a: "fetch_page_data env base_url = Some home \<and>
    extract_internal_links env base_url (html home) = Some ls \<and>
    slice_to ls m = before @ link # after \<and> http_get env link = Inl e'"
  then have "fetch_page_data env link = None"
    by (simp add: fetch_page_data_def)
  then have "crawl_inner env (before @ link # after) =
      List.map_filter (fetch_page_data env) before @ List.map_filter (fetch_page_data env) after"
    by (simp add: crawl_inner_append crawl_inner_map_filter[symmetric])
  with a show "crawl_website env base_url m =
        (base_url # before @ link # after,
         Some (build_brand_context
                 (home # List.map_filter (fetch_page_data env) before @
                         List.map_filter (fetch_page_data env) after)))"
    by (simp add: crawl_website_def crawl_pages_def Let_def)
qed

text \<open>
  C7, on the small site: an unreachable host, the site with one failing inner page, and the
  site whose link extraction raises.
\<close>

theorem crawl_website_never_raises_witness:
  "crawl_website demo_crawl_env ''https://down.example'' 2 = ([''https://down.example''], None) \<and>
   crawl_website demo_crawl_env ''https://ex.com'' 2 =
     (''https://ex.com'' #
        slice_to [''https://ex.com/a'', ''https://ex.com/b'', ''https://ex.com/c''] 2,
      Some (build_brand_context
              (demo_home_page #
               List.map_filter (fetch_page_data demo_crawl_env)
                 (slice_to [''https://ex.com/a'', ''https://ex.com/b'', ''https://ex.com/c''] 2)))) \<and>
   crawl_website demo_crawl_env ''https://odd.example'' 2 =
     ([''https://odd.example''], Some (build_brand_context [demo_odd_page])) \<and>
   crawl_website demo_crawl_env ''https://ex.com'' 2 =
     (''https://ex.com'' # [''https://ex.com/a''] @ ''https://ex.com/b'' # [],
      Some (build_brand_context
              (demo_home_page #
               List.map_filter (fetch_page_data demo_crawl_env) [''https://ex.com/a''] @
               List.map_filter (fetch_page_data demo_crawl_env) [])))"
proof -
  note t = crawl_website_never_raises[where env = demo_crawl_env and m = 2]
  have 1: "crawl_website demo_crawl_env ''https://down.example'' 2 =
      ([''https://down.example''], None)"
    using t[where base_url = "''https://down.example''" and e = "''404 Client Error''"]
      demo_get_down by blast
  have 2: "crawl_website demo_crawl_env ''https://ex.com'' 2 =
     (''https://ex.com'' #
        slice_to [''https://ex.com/a'', ''https://ex.com/b'', ''https://ex.com/c''] 2,
      Some (build_brand_context
              (demo_home_page #
               List.map_filter (fetch_page_data demo_crawl_env)
                 (slice_to [''https://ex.com/a'', ''https://ex.com/b'', ''https://ex.com/c''] 2))))"
    using t[where base_url = "''https://ex.com''" and home = demo_home_page
        and ls = "[''https://ex.com/a'', ''https://ex.com/b'', ''https://ex.com/c'']"]
      demo_fetch_home demo_links_home by blast
  have 3: "crawl_website demo_crawl_env ''https://odd.example'' 2 =
     ([''https://odd.example''], Some (build_brand_context [demo_odd_page]))"
    using t[where base_url = "''https://odd.example''" and home = demo_odd_page]
      demo_fetch_odd demo_links_odd_page by blast
  have 4: "crawl_website demo_crawl_env ''https://ex.com'' 2 =
     (''https://ex.com'' # [''https://ex.com/a''] @ ''https://ex.com/b'' # [],
      Some (build_brand_context
              (demo_home_page #
               List.map_filter (fetch_page_data demo_crawl_env) [''https://ex.com/a''] @
               List.map_filter (fetch_page_data demo_crawl_env) [])))"
    using t[where base_url = "''https://ex.com''" and home = demo_home_page
        and ls = "[''https://ex.com/a'', ''https://ex.com/b'', ''https://ex.com/c'']"
        and before = "[''https://ex.com/a'']" and link = "''https://ex.com/b''"
        and after = "[]" and e' = "''404 Client Error''"]
      demo_fetch_home demo_links_home demo_slice demo_get_b by blast
  from 1 2 3 4 show ?thesis by blast
qed

text \<open>
  C8, for a page count \<open>0 \<le> max_inner_pages\<close>. When the home page is fetched, the brand
  context returned by \<^verbatim>\<open>crawl_website\<close> is the newline-join of the blocks of the pages
  collected: the home page and the fetched ones among the first \<open>max_inner_pages\<close> links,
  in that order. The first block is the one of the home page and starts with the marker
  line and the line of the root URL; there are at most \<open>1 + max_inner_pages\<close> blocks; a home
  page without internal links gives the home block alone.
\<close>

theorem crawl_website_blocks:
  assumes "0 \<le> m" and "fetch_page_data env base_url = Some home"
  shows "let ls = (case extract_internal_links env base_url (html home) of
                      None \<Rightarrow> [] | Some found \<Rightarrow> found);
             pages = home # List.map_filter (fetch_page_data env) (slice_to ls m)
         in snd (crawl_website env base_url m) =
              Some (py_join nl (map (\<lambda>(i, page). page_block i page) (enumerate 0 pages))) \<and>
            map url pages =
              base_url # filter (\<lambda>u. fetch_page_data env u \<noteq> None) (slice_to ls m) \<and>
            prefix (''=== HOME PAGE ==='' @ nl @ ''URL: '' @ base_url @ nl)
              (py_join nl (map (\<lambda>(i, page). page_block i page) (enumerate 0 pages))) \<and>
            int (length (map (\<lambda>(i, page). page_block i page) (enumerate 0 pages))) \<le> 1 + m \<and>
            (ls = [] \<longrightarrow> snd (crawl_website env base_url m) = Some (page_block 0 home))"
proof -
  define ls where "ls = (case extract_internal_links env base_url (html home) of
                      None \<Rightarrow> [] | Some found \<Rightarrow> found)"
  define pages where "pages = home # List.map_filter (fetch_page_data env) (slice_to ls m)"
  have r: "snd (crawl_website env base_url m) = Some (build_brand_context pages)"
    using assms(2)
    by (simp add: crawl_website_def crawl_pages_def Let_def crawl_inner_map_filter pages_def
          ls_def slice_to_def List.map_filter_simps split: option.splits)
  have u: "url home = base_url"
    using assms(2) by (rule fetch_page_data_url)
  have urls: "map url (List.map_filter (fetch_page_data env) xs) =
      filter (\<lambda>u. fetch_page_data env u \<noteq> None) xs" for xs
    by (induction xs) (auto simp: List.map_filter_simps fetch_page_data_url split: option.splits)
  have len: "length (List.map_filter (fetch_page_data env) xs) \<le> length xs" for xs
    by (induction xs) (auto simp: List.map_filter_simps split: option.splits)
  have "int (length (slice_to ls m)) \<le> m"
    using assms(1) by (rule length_slice_to)
  with len[of "slice_to ls m"] have bound: "int (length pages) \<le> 1 + m"
    by (simp add: pages_def)
  have pre: "prefix (''=== HOME PAGE ==='' @ nl @ ''URL: '' @ base_url @ nl)
      (build_brand_context pages)"
    using build_brand_context_home_prefix[of home] by (simp add: pages_def u)
  have zero: "snd (crawl_website env base_url m) = Some (page_block 0 home)" if "ls = []"
    using r that
    by (simp add: pages_def slice_to_def List.map_filter_simps build_brand_context_blocks
          enumerate_simps)
  have c1: "snd (crawl_website env base_url m) =
          Some (py_join nl (map (\<lambda>(i, page). page_block i page) (enumerate 0 pages)))"
    using r unfolding build_brand_context_blocks .
  have c2: "map url pages =
          base_url # filter (\<lambda>u. fetch_page_data env u \<noteq> None) (slice_to ls m)"
    unfolding pages_def using urls[of "slice_to ls m"] u by simp
  have c3: "prefix (''=== HOME PAGE ==='' @ nl @ ''URL: '' @ base_url @ nl)
          (py_join nl (map (\<lambda>(i, page). page_block i page) (enumerate 0 pages)))"
    using pre unfolding build_brand_context_blocks .
  have c4: "int (length (map (\<lambda>(i, page). page_block i page) (enumerate 0 pages))) \<le> 1 + m"
    using bound by simp
  have c5: "ls = [] \<longrightarrow> snd (crawl_website env base_url m) = Some (page_block 0 home)"
    using zero by blast
  from c1 c2 c3 c4 c5 show ?thesis
    unfolding Let_def ls_def[symmetric] pages_def[symmetric] by (intro conjI)
qed

text \<open>C8, on the small site with the default bound of two inner pages.\<close>

theorem crawl_website_blocks_witness:
  "snd (crawl_website demo_crawl_env ''https://ex.com'' 2) =
     Some (py_join nl [page_block 0 demo_home_page, page_block 1 demo_about_page]) \<and>
   map url [demo_home_page, demo_about_page] = [''https://ex.com'', ''https://ex.com/a'']"
proof -
  have m: "(0::int) \<le> 2"
    by simp
  note t = crawl_website_blocks[OF m demo_fetch_home, unfolded Let_def demo_pages]
  have e: "enumerate 0 [demo_home_page, demo_about_page] = [(0, demo_home_page), (1, demo_about_page)]"
    by (simp add: enumerate_simps)
  have "snd (crawl_website demo_crawl_env ''https://ex.com'' 2) =
     Some (py_join nl [page_block 0 demo_home_page, page_block 1 demo_about_page])"
    using t[THEN conjunct1] unfolding e by simp
  moreover have "map url [demo_home_page, demo_about_page] = [''https://ex.com'', ''https://ex.com/a'']"
    by code_simp
  ultimately show ?thesis
    by (rule conjI)
qed

text \<open>
  C9 as stated fails: \<^verbatim>\<open>_extract_internal_links\<close> collects the links in a \<^verbatim>\<open>set\<close> and takes
  the first five of \<^verbatim>\<open>list(links)\<close>, whose order is the interpreter's. With the same
  fetched content, the order \<open>a, b, c\<close> selects \<^verbatim>\<open>/a\<close> and \<^verbatim>\<open>/b\<close>, the order \<open>c, b, a\<close>
  selects \<^verbatim>\<open>/c\<close> and \<^verbatim>\<open>/b\<close>, and the two brand contexts differ.
\<close>

theorem crawl_website_deterministic_counterexample:
  "crawl_website demo_crawl_env ''https://ex.com'' 2 \<noteq>
   crawl_website (demo_crawl_env\<lparr>set_order := rev\<rparr>) ''https://ex.com'' 2 \<and>
   http_get (demo_crawl_env\<lparr>set_order := rev\<rparr>) = http_get demo_crawl_env \<and>
   fst (crawl_website demo_crawl_env ''https://ex.com'' 2) =
     [''https://ex.com'', ''https://ex.com/a'', ''https://ex.com/b''] \<and>
   fst (crawl_website (demo_crawl_env\<lparr>set_order := rev\<rparr>) ''https://ex.com'' 2) =
     [''https://ex.com'', ''https://ex.com/c'', ''https://ex.com/b'']"
proof -
  have 1: "fst (crawl_website demo_crawl_env ''https://ex.com'' 2) =
     [''https://ex.com'', ''https://ex.com/a'', ''https://ex.com/b'']"
    by code_simp
  have 2: "fst (crawl_website (demo_crawl_env\<lparr>set_order := rev\<rparr>) ''https://ex.com'' 2) =
     [''https://ex.com'', ''https://ex.com/c'', ''https://ex.com/b'']"
    by code_simp
  have 3: "crawl_website demo_crawl_env ''https://ex.com'' 2 \<noteq>
   crawl_website (demo_crawl_env\<lparr>set_order := rev\<rparr>) ''https://ex.com'' 2"
  proof
    assume "crawl_website demo_crawl_env ''https://ex.com'' 2 =
      crawl_website (demo_crawl_env\<lparr>set_order := rev\<rparr>) ''https://ex.com'' 2"
    then have "fst (crawl_website demo_crawl_env ''https://ex.com'' 2) =
      fst (crawl_website (demo_crawl_env\<lparr>set_order := rev\<rparr>) ''https://ex.com'' 2)"
      by simp
    then show False unfolding 1 2 by simp
  qed
  show ?thesis using 1 2 3 by simp
qed

text \<open>
  C9, with the enumeration order of the link set fixed. Two environments with the same
  link extraction, the same \<^verbatim>\<open>urljoin\<close> and \<^verbatim>\<open>urlparse\<close>, the same set order, and the same
  response on every URL the first run requests give the same requests in the same order
  and the same brand context.
\<close>

theorem crawl_website_deterministic:
  assumes "anchor_hrefs e1 = anchor_hrefs e2" and "urljoin e1 = urljoin e2"
    and "urlparse e1 = urlparse e2" and "set_order e1 = set_order e2"
    and "\<forall>u \<in> set (fst (crawl_website e1 base_url m)). http_get e1 u = http_get e2 u"
  shows "crawl_website e1 base_url m = crawl_website e2 base_url m"
proof -
  have req: "\<forall>u \<in> set (fst (crawl_pages e1 base_url m)). http_get e1 u = http_get e2 u"
    using assms(5) by (simp add: fst_crawl_website)
  have "base_url \<in> set (fst (crawl_pages e1 base_url m))"
    using crawl_pages_requested_hd[of e1 base_url m] by auto
  with req have "http_get e1 base_url = http_get e2 base_url"
    by blast
  then have home: "fetch_page_data e1 base_url = fetch_page_data e2 base_url"
    by (rule fetch_page_data_cong)
  have links: "extract_internal_links e1 base_url h = extract_internal_links e2 base_url h" for h
    using assms(1-4) by (rule extract_internal_links_cong)
  have "crawl_pages e1 base_url m = crawl_pages e2 base_url m"
  proof (cases "fetch_page_data e1 base_url")
    case None
    with home show ?thesis by (simp add: crawl_pages_def)
  next
    case (Some home_data)
    note h1 = Some
    show ?thesis
    proof (cases "extract_internal_links e1 base_url (html home_data)")
      case None
      with h1 home links show ?thesis by (simp add: crawl_pages_def)
    next
      case (Some ls)
      with h1 have "fst (crawl_pages e1 base_url m) = base_url # slice_to ls m"
        by (simp add: crawl_pages_def Let_def)
      with req have "\<forall>u \<in> set (slice_to ls m). http_get e1 u = http_get e2 u"
        by simp
      then have "crawl_inner e1 (slice_to ls m) = crawl_inner e2 (slice_to ls m)"
        by (rule crawl_inner_cong)
      with h1 Some home links[of "html home_data"] show ?thesis
        by (simp add: crawl_pages_def Let_def)
    qed
  qed
  then show ?thesis by (simp add: crawl_website_def)
qed

text \<open>C9, on the small site: a change of a page that is not requested changes nothing.\<close>

theorem crawl_website_deterministic_witness:
  "crawl_website demo_crawl_env ''https://ex.com'' 2 =
   crawl_website
     (demo_crawl_env\<lparr>http_get :=
        \<lambda>u. if u = ''https://ex.com/c'' then Inl ''timed out'' else http_get demo_crawl_env u\<rparr>)
     ''https://ex.com'' 2"
  using crawl_website_deterministic[where ?e1.0 = demo_crawl_env
          and ?e2.0 = "demo_crawl_env\<lparr>http_get :=
             \<lambda>u. if u = ''https://ex.com/c'' then Inl ''timed out'' else http_get demo_crawl_env u\<rparr>"
          and base_url = "''https://ex.com''" and m = 2]
  by (simp add: demo_trace)

section \<open>Section regeneration and the stored page\<close>

text \<open>
  C3. Regenerating one section of a stored page any number of times, each time with a
  provider, a clock reading and request data of its own, leaves the page ids, the
  \<^verbatim>\<open>id\<close>, \<^verbatim>\<open>type\<close> and \<^verbatim>\<open>order\<close> of every stored section, and every stored section without
  its \<^verbatim>\<open>data\<close> item as they were, whatever the provider returns. When the page is stored
  with a list of sections, the section \<open>JObj kvs\<close> is the first with the requested id, the
  generation client returns a section and that section has a \<^verbatim>\<open>data\<close> item, the stored
  sections afterwards are the same list with the \<^verbatim>\<open>data\<close> item of that one section set to
  the returned \<^verbatim>\<open>data\<close>: its \<^verbatim>\<open>id\<close>, \<^verbatim>\<open>type\<close> and \<^verbatim>\<open>order\<close> are the stored ones, not those
  of the returned section.
\<close>

theorem regeneration_preserves_identity:
  "map (\<lambda>d. (page_id d, identity_fields (sections d), sections_without_data (sections d)))
     (pages_collection (regenerate_times calls db pid sid)) =
   map (\<lambda>d. (page_id d, identity_fields (sections d), sections_without_data (sections d)))
     (pages_collection db) \<and>
   (get_page db pid = Some page \<and>
    sections page = JArr (before @ JObj kvs # after) \<and>
    find_section before (section_id request) = Inr None \<and>
    map_of kvs ''id'' = Some (JStr (section_id request)) \<and>
    regenerate_section env (JObj kvs) (dict_get (data request) ''context'' (JObj [])) =
      (sent, Inr new_section) \<and>
    py_getitem new_section ''data'' = Inr new_data \<and>
    int_value (version page) = Some v \<longrightarrow>
      get_page (snd (snd (regenerate_section_endpoint env now db pid request))) pid =
        Some (page\<lparr>sections := JArr (before @ JObj (dict_set kvs ''data'' new_data) # after),
                    version := JInt (v + 1), updated_at := now\<rparr>) \<and>
      section_field ''id'' (JObj (dict_set kvs ''data'' new_data)) = section_field ''id'' (JObj kvs) \<and>
      section_field ''type'' (JObj (dict_set kvs ''data'' new_data)) =
        section_field ''type'' (JObj kvs) \<and>
      section_field ''order'' (JObj (dict_set kvs ''data'' new_data)) =
        section_field ''order'' (JObj kvs) \<and>
      section_field ''data'' (JObj (dict_set kvs ''data'' new_data)) = Some new_data \<and>
      without_data (JObj (dict_set kvs ''data'' new_data)) = without_data (JObj kvs))"
proof (intro conjI impI)
  show "map (\<lambda>d. (page_id d, identity_fields (sections d), sections_without_data (sections d)))
     (pages_collection (regenerate_times calls db pid sid)) =
   map (\<lambda>d. (page_id d, identity_fields (sections d), sections_without_data (sections d)))
     (pages_collection db)"
    by (rule regenerate_times_view)
next
  assume a: "get_page db pid = Some page \<and>
    sections page = JArr (before @ JObj kvs # after) \<and>
    find_section before (section_id request) = Inr None \<and>
    map_of kvs ''id'' = Some (JStr (section_id request)) \<and>
    regenerate_section env (JObj kvs) (dict_get (data request) ''context'' (JObj [])) =
      (sent, Inr new_section) \<and>
    py_getitem new_section ''data'' = Inr new_data \<and>
    int_value (version page) = Some v"
  then have "get_page db pid = Some page"
    "sections page = JArr (before @ JObj kvs # after)"
    "find_section before (section_id request) = Inr None"
    "map_of kvs ''id'' = Some (JStr (section_id request))"
    "regenerate_section env (JObj kvs) (dict_get (data request) ''context'' (JObj [])) =
      (sent, Inr new_section)"
    "py_getitem new_section ''data'' = Inr new_data"
    "int_value (version page) = Some v"
    by simp_all
  from regenerate_endpoint_success[OF this]
  show "get_page (snd (snd (regenerate_section_endpoint env now db pid request))) pid =
        Some (page\<lparr>sections := JArr (before @ JObj (dict_set kvs ''data'' new_data) # after),
                    version := JInt (v + 1), updated_at := now\<rparr>)"
    by simp
next
  show "section_field ''id'' (JObj (dict_set kvs ''data'' new_data)) = section_field ''id'' (JObj kvs)"
    by (simp add: section_field_def map_of_dict_set)
next
  show "section_field ''type'' (JObj (dict_set kvs ''data'' new_data)) =
        section_field ''type'' (JObj kvs)"
    by (simp add: section_field_def map_of_dict_set)
next
  show "section_field ''order'' (JObj (dict_set kvs ''data'' new_data)) =
        section_field ''order'' (JObj kvs)"
    by (simp add: section_field_def map_of_dict_set)
next
  show "section_field ''data'' (JObj (dict_set kvs ''data'' new_data)) = Some new_data"
    by (simp add: section_field_def map_of_dict_set)
next
  show "without_data (JObj (dict_set kvs ''data'' new_data)) = without_data (JObj kvs)"
    by (simp add: without_data_def filter_dict_set)
qed

text \<open>
  C3, on the stored page of the small site, with a provider whose section has another id,
  type and order: two regenerations in a row, and the stored page after one.
\<close>

theorem regeneration_preserves_identity_witness:
  "map (\<lambda>d. (page_id d, identity_fields (sections d), sections_without_data (sections d)))
     (pages_collection
        (regenerate_times [(demo_gen_env, 20, []), (demo_failing_env, 21, [])] demo_store
           ''landing-1'' ''hero-1'')) =
   map (\<lambda>d. (page_id d, identity_fields (sections d), sections_without_data (sections d)))
     (pages_collection demo_store) \<and>
   get_page (snd (snd (regenerate_section_endpoint demo_gen_env 20 demo_store ''landing-1''
                         demo_regenerate_request))) ''landing-1'' =
     Some (demo_document
             \<lparr>sections :=
                JArr [JObj [(''id'', JStr ''hero-1''), (''type'', JStr ''hero''),
                            (''order'', JInt 0),
                            (''data'', JObj [(''headline'', JStr ''New'')])]],
              version := JInt 2, updated_at := 20\<rparr>)"
proof -
  note t = regeneration_preserves_identity[where env = demo_gen_env and now = 20
      and db = demo_store and pid = "''landing-1''" and request = demo_regenerate_request
      and calls = "[(demo_gen_env, 20, []), (demo_failing_env, 21, [])]" and sid = "''hero-1''"
      and page = demo_document and before = "[]" and after = "[]" and kvs = demo_hero_fields
      and new_section = demo_new_section and new_data = "JObj [(''headline'', JStr ''New'')]"
      and v = 1
      and sent = "fst (regenerate_section demo_gen_env (JObj demo_hero_fields)
          (dict_get (data demo_regenerate_request) ''context'' (JObj [])))"]
  have r: "regenerate_section demo_gen_env (JObj demo_hero_fields)
        (dict_get (data demo_regenerate_request) ''context'' (JObj [])) =
      (fst (regenerate_section demo_gen_env (JObj demo_hero_fields)
          (dict_get (data demo_regenerate_request) ''context'' (JObj []))), Inr demo_new_section)"
    using demo_regenerate_section by (metis prod.collapse)
  have h: "get_page demo_store ''landing-1'' = Some demo_document \<and>
    sections demo_document = JArr ([] @ JObj demo_hero_fields # []) \<and>
    find_section [] (section_id demo_regenerate_request) = Inr None \<and>
    map_of demo_hero_fields ''id'' = Some (JStr (section_id demo_regenerate_request)) \<and>
    regenerate_section demo_gen_env (JObj demo_hero_fields)
        (dict_get (data demo_regenerate_request) ''context'' (JObj [])) =
      (fst (regenerate_section demo_gen_env (JObj demo_hero_fields)
          (dict_get (data demo_regenerate_request) ''context'' (JObj []))), Inr demo_new_section) \<and>
    py_getitem demo_new_section ''data'' = Inr (JObj [(''headline'', JStr ''New'')]) \<and>
    int_value (version demo_document) = Some 1"
    using demo_get_page demo_sections demo_hero_id r demo_new_data demo_version by simp
  from t[THEN conjunct1] t[THEN conjunct2, rule_format, OF h, THEN conjunct1]
  show ?thesis
    unfolding demo_hero_changed by simp
qed



text \<open>
  C5. When \<^verbatim>\<open>generate_page_spec\<close> raises, \<^verbatim>\<open>generate_landing_page\<close> answers with the error
  and the store is the one before the call; so it is when the provider call raises and
  when its text does not parse. A store that differs after the call was written by
  \<^verbatim>\<open>save_page\<close>, on the parsed reply of the provider to the one request sent, completed
  with the default id and version. When \<^verbatim>\<open>regenerate_section\<close> raises, the endpoint
  answers with the error and the store is the one before the call; every error response
  of the endpoint leaves the store as it was, and a store that differs after the call
  comes with a success response and a provider reply that parsed.
\<close>

theorem store_write_after_parse:
  "(snd (generate_page_spec env u1 (user_input_of request) (request_crawl env request)) = Inl e \<longrightarrow>
      generate_landing_page env u1 u2 n1 n2 db request =
        ([chat_request_of
            (build_landing_page_prompt (py_repr env) u1 (user_input_of request) None) 2500],
         Inl (generate_error e), db)) \<and>
   (completion env
      (chat_request_of
         (build_landing_page_prompt (py_repr env) u1 (user_input_of request) None) 2500) =
      Inl m \<longrightarrow>
      snd (snd (generate_landing_page env u1 u2 n1 n2 db request)) = db) \<and>
   (completion env
      (chat_request_of
         (build_landing_page_prompt (py_repr env) u1 (user_input_of request) None) 2500) =
      Inr (Some text) \<and>
    json_loads env text = Inl m \<longrightarrow>
      snd (snd (generate_landing_page env u1 u2 n1 n2 db request)) = db) \<and>
   (snd (snd (generate_landing_page env u1 u2 n1 n2 db request)) \<noteq> db \<longrightarrow>
      (\<exists>text page_spec spec1 spec2 saved.
         completion env
           (chat_request_of
              (build_landing_page_prompt (py_repr env) u1 (user_input_of request) None) 2500) =
           Inr (Some text) \<and>
         json_loads env text = Inr page_spec \<and>
         assign_default page_spec ''pageId'' (JStr (''landing-'' @ take 8 u2)) = Inr spec1 \<and>
         assign_default spec1 ''version'' (JInt 1) = Inr spec2 \<and>
         save_page db n1 n2 spec2 (user_input_of request) (request_crawl env request) =
           Inr (saved, snd (snd (generate_landing_page env u1 u2 n1 n2 db request))))) \<and>
   (get_page db pid = Some page \<and> iterate (sections page) = Inr xs \<and>
    find_section xs (section_id rq) = Inr (Some sec) \<and>
    snd (regenerate_section env sec (dict_get (data rq) ''context'' (JObj []))) = Inl e2 \<longrightarrow>
      snd (regenerate_section_endpoint env now db pid rq) = (Inl (regenerate_error e2), db)) \<and>
   (fst (snd (regenerate_section_endpoint env now db pid rq)) = Inl h \<longrightarrow>
      snd (snd (regenerate_section_endpoint env now db pid rq)) = db) \<and>
   (snd (snd (regenerate_section_endpoint env now db pid rq)) \<noteq> db \<longrightarrow>
      (\<exists>req text new_section r.
         fst (regenerate_section_endpoint env now db pid rq) = [req] \<and>
         completion env req = Inr (Some text) \<and>
         json_loads env text = Inr new_section \<and>
         fst (snd (regenerate_section_endpoint env now db pid rq)) = Inr r))"
proof (intro conjI impI)
  assume "snd (generate_page_spec env u1 (user_input_of request) (request_crawl env request)) = Inl e"
  from generate_landing_page_failed[OF this]
  show "generate_landing_page env u1 u2 n1 n2 db request =
        ([chat_request_of
            (build_landing_page_prompt (py_repr env) u1 (user_input_of request) None) 2500],
         Inl (generate_error e), db)"
    by (simp add: generate_page_spec_sent)
next
  assume "completion env
      (chat_request_of
         (build_landing_page_prompt (py_repr env) u1 (user_input_of request) None) 2500) =
      Inl m"
  then have "snd (generate_page_spec env u1 (user_input_of request) (request_crawl env request)) =
      Inl (Exception ''Error generating page spec: '' (ProviderError m))"
    by (simp add: generate_page_spec_result)
  from generate_landing_page_failed[OF this]
  show "snd (snd (generate_landing_page env u1 u2 n1 n2 db request)) = db"
    by simp
next
  assume "completion env
      (chat_request_of
         (build_landing_page_prompt (py_repr env) u1 (user_input_of request) None) 2500) =
      Inr (Some text) \<and>
    json_loads env text = Inl m"
  then have "snd (generate_page_spec env u1 (user_input_of request) (request_crawl env request)) =
      Inl (ValueError ''Failed to parse LLM response as JSON: '' (JSONDecodeError m))"
    by (simp add: generate_page_spec_result)
  from generate_landing_page_failed[OF this]
  show "snd (snd (generate_landing_page env u1 u2 n1 n2 db request)) = db"
    by simp
next
  assume "snd (snd (generate_landing_page env u1 u2 n1 n2 db request)) \<noteq> db"
  then show "\<exists>text page_spec spec1 spec2 saved.
         completion env
           (chat_request_of
              (build_landing_page_prompt (py_repr env) u1 (user_input_of request) None) 2500) =
           Inr (Some text) \<and>
         json_loads env text = Inr page_spec \<and>
         assign_default page_spec ''pageId'' (JStr (''landing-'' @ take 8 u2)) = Inr spec1 \<and>
         assign_default spec1 ''version'' (JInt 1) = Inr spec2 \<and>
         save_page db n1 n2 spec2 (user_input_of request) (request_crawl env request) =
           Inr (saved, snd (snd (generate_landing_page env u1 u2 n1 n2 db request)))"
    by (rule generate_landing_page_saved)
next
  assume "get_page db pid = Some page \<and> iterate (sections page) = Inr xs \<and>
    find_section xs (section_id rq) = Inr (Some sec) \<and>
    snd (regenerate_section env sec (dict_get (data rq) ''context'' (JObj []))) = Inl e2"
  then show "snd (regenerate_section_endpoint env now db pid rq) = (Inl (regenerate_error e2), db)"
    using regenerate_endpoint_failed by blast
next
  assume "fst (snd (regenerate_section_endpoint env now db pid rq)) = Inl h"
  then show "snd (snd (regenerate_section_endpoint env now db pid rq)) = db"
    by (rule regenerate_endpoint_error_store)
next
  assume "snd (snd (regenerate_section_endpoint env now db pid rq)) \<noteq> db"
  then show "\<exists>req text new_section r.
         fst (regenerate_section_endpoint env now db pid rq) = [req] \<and>
         completion env req = Inr (Some text) \<and>
         json_loads env text = Inr new_section \<and>
         fst (snd (regenerate_section_endpoint env now db pid rq)) = Inr r"
    by (rule regenerate_endpoint_changed)
qed

text \<open>
  C5, on the small site: a truncated reply and an unreachable provider leave the empty
  store and the stored page alone; the complete reply is what gets stored.
\<close>

theorem store_write_after_parse_witness:
  "generate_landing_page demo_truncating_env demo_uuid demo_uuid 10 11 demo_empty_store
     demo_request =
     ([chat_request_of
         (build_landing_page_prompt (py_repr demo_truncating_env) demo_uuid
            (user_input_of demo_request) None) 2500],
      Inl (generate_error
             (ValueError ''Failed to parse LLM response as JSON: ''
                (JSONDecodeError ''Expecting value''))),
      demo_empty_store) \<and>
   snd (snd (generate_landing_page demo_failing_env demo_uuid demo_uuid 10 11 demo_empty_store
               demo_request)) = demo_empty_store \<and>
   snd (snd (generate_landing_page demo_truncating_env demo_uuid demo_uuid 10 11
               demo_empty_store demo_request)) = demo_empty_store \<and>
   (\<exists>text page_spec spec1 spec2 saved.
      completion demo_gen_env
        (chat_request_of
           (build_landing_page_prompt (py_repr demo_gen_env) demo_uuid
              (user_input_of demo_request) None) 2500) = Inr (Some text) \<and>
      json_loads demo_gen_env text = Inr page_spec \<and>
      assign_default page_spec ''pageId'' (JStr (''landing-'' @ take 8 demo_uuid)) = Inr spec1 \<and>
      assign_default spec1 ''version'' (JInt 1) = Inr spec2 \<and>
      save_page demo_empty_store 10 11 spec2 (user_input_of demo_request)
        (request_crawl demo_gen_env demo_request) =
        Inr (saved,
             snd (snd (generate_landing_page demo_gen_env demo_uuid demo_uuid 10 11
                         demo_empty_store demo_request)))) \<and>
   snd (regenerate_section_endpoint demo_truncating_env 20 demo_store ''landing-1''
          demo_regenerate_request) =
     (Inl (regenerate_error
             (ValueError ''Failed to parse LLM response as JSON: ''
                (JSONDecodeError ''Expecting value''))),
      demo_store) \<and>
   snd (snd (regenerate_section_endpoint demo_truncating_env 20 demo_store ''landing-1''
               demo_regenerate_request)) = demo_store \<and>
   (\<exists>req text new_section r.
      fst (regenerate_section_endpoint demo_gen_env 20 demo_store ''landing-1''
             demo_regenerate_request) = [req] \<and>
      completion demo_gen_env req = Inr (Some text) \<and>
      json_loads demo_gen_env text = Inr new_section \<and>
      fst (snd (regenerate_section_endpoint demo_gen_env 20 demo_store ''landing-1''
                  demo_regenerate_request)) = Inr r)"
proof -
  have f: "get_page demo_store ''landing-1'' = Some demo_document \<and>
      iterate (sections demo_document) = Inr [demo_hero] \<and>
      find_section [demo_hero] (section_id demo_regenerate_request) = Inr (Some demo_hero) \<and>
      snd (regenerate_section demo_truncating_env demo_hero
             (dict_get (data demo_regenerate_request) ''context'' (JObj []))) =
        Inl (ValueError ''Failed to parse LLM response as JSON: ''
               (JSONDecodeError ''Expecting value''))"
    using demo_get_page demo_find_hero demo_truncated_regenerate by simp
  have l: "completion demo_truncating_env
      (chat_request_of
         (build_landing_page_prompt (py_repr demo_truncating_env) demo_uuid
            (user_input_of demo_request) None) 2500) = Inr (Some ''{\"pageId\": '') \<and>
      json_loads demo_truncating_env ''{\"pageId\": '' = Inl ''Expecting value''"
    using demo_truncating_generate demo_truncating_loads by simp
  note tg = store_write_after_parse[where ?u1.0 = demo_uuid
      and ?u2.0 = demo_uuid and ?n1.0 = 10 and ?n2.0 = 11 and db = demo_empty_store
      and request = demo_request]
  note tr = store_write_after_parse[where db = demo_store
      and pid = "''landing-1''" and rq = demo_regenerate_request and now = 20]
  note t1 = tg[where env = demo_truncating_env, THEN conjunct1, rule_format,
      OF demo_truncated_generate]
  note t2 = tg[where env = demo_failing_env, THEN conjunct2, THEN conjunct1, rule_format,
      OF demo_failing_generate]
  note t3 = tg[where env = demo_truncating_env, THEN conjunct2, THEN conjunct2, THEN conjunct1,
      rule_format, OF l]
  note t4 = tg[where env = demo_gen_env, THEN conjunct2, THEN conjunct2, THEN conjunct2,
      THEN conjunct1, rule_format, OF demo_generate_changed]
  note t5 = tr[where env = demo_truncating_env, THEN conjunct2, THEN conjunct2, THEN conjunct2,
      THEN conjunct2, THEN conjunct1, rule_format, OF f]
  from t5 have e: "fst (snd (regenerate_section_endpoint demo_truncating_env 20 demo_store
      ''landing-1'' demo_regenerate_request)) =
     Inl (regenerate_error
             (ValueError ''Failed to parse LLM response as JSON: ''
                (JSONDecodeError ''Expecting value'')))"
    by simp
  note t6 = tr[where env = demo_truncating_env, THEN conjunct2, THEN conjunct2, THEN conjunct2,
      THEN conjunct2, THEN conjunct2, THEN conjunct1, rule_format, OF e]
  note t7 = tr[where env = demo_gen_env, THEN conjunct2, THEN conjunct2, THEN conjunct2,
      THEN conjunct2, THEN conjunct2, THEN conjunct2, rule_format, OF demo_regenerate_changed]
  from t1 t2 t3 t4 t5 t6 t7 show ?thesis by blast
qed



section \<open>Brand context in the prompts sent\<close>

text \<open>
  C1, on the request of the small site, whose crawl succeeds. The handler obtains the brand
  context and stores it with the page, but \<^verbatim>\<open>generate_page_spec\<close> assigns \<^verbatim>\<open>None\<close> to its
  parameter \<^verbatim>\<open>crawled_context\<close> and finds no \<^verbatim>\<open>url\<close> in the dict the handler built, so the
  one prompt sent is the prompt without context: it holds neither the brand context, nor
  the header of the brand block, nor the instruction to take it as primary reference. The
  prompt composer given the same context does embed it.
\<close>

theorem generation_prompt_drops_brand_context:
  "request_crawl demo_gen_env demo_request =
     Some (build_brand_context [demo_home_page, demo_about_page]) \<and>
   map user_content
     (fst (generate_landing_page demo_gen_env demo_uuid demo_uuid 10 11 demo_empty_store
             demo_request)) =
     [build_landing_page_prompt (py_repr demo_gen_env) demo_uuid (user_input_of demo_request)
        None] \<and>
   \<not> sublist (build_brand_context [demo_home_page, demo_about_page])
       (build_landing_page_prompt (py_repr demo_gen_env) demo_uuid (user_input_of demo_request)
          None) \<and>
   \<not> sublist ''BRAND CONTEXT''
       (build_landing_page_prompt (py_repr demo_gen_env) demo_uuid (user_input_of demo_request)
          None) \<and>
   \<not> sublist ''PRIMARY reference''
       (build_landing_page_prompt (py_repr demo_gen_env) demo_uuid (user_input_of demo_request)
          None) \<and>
   sublist (build_brand_context [demo_home_page, demo_about_page])
       (build_landing_page_prompt (py_repr demo_gen_env) demo_uuid (user_input_of demo_request)
          (Some (build_brand_context [demo_home_page, demo_about_page]))) \<and>
   map crawled_context
     (pages_collection
        (snd (snd (generate_landing_page demo_gen_env demo_uuid demo_uuid 10 11
                     demo_empty_store demo_request)))) =
     [Some (build_brand_context [demo_home_page, demo_about_page])]"
proof -
  let ?B = "build_brand_context [demo_home_page, demo_about_page]"
  let ?P = "build_landing_page_prompt (py_repr demo_gen_env) demo_uuid
      (user_input_of demo_request) None"
  have sent: "map user_content
     (fst (generate_landing_page demo_gen_env demo_uuid demo_uuid 10 11 demo_empty_store
             demo_request)) = [?P]"
    unfolding generate_landing_page_sent by (simp add: chat_request_of_def)
  have stored: "map crawled_context
     (pages_collection
        (snd (snd (generate_landing_page demo_gen_env demo_uuid demo_uuid 10 11
                     demo_empty_store demo_request)))) = [Some ?B]"
    unfolding demo_generate_run by (simp add: demo_store_def demo_document_def)
  have home: "\<not> sublist ''=== HOME PAGE ==='' ?P"
    unfolding demo_prompt_text using demo_lines_no_home
    by (subst sublist_text_lines) simp_all
  have marker: "\<not> sublist ''BRAND CONTEXT'' ?P"
    unfolding demo_prompt_text using demo_lines_no_marker
    by (subst sublist_text_lines) simp_all
  have primary: "\<not> sublist ''PRIMARY reference'' ?P"
    unfolding demo_prompt_text using demo_lines_no_primary
    by (subst sublist_text_lines) simp_all
  have pre: "prefix (''=== HOME PAGE ==='' @ nl @ ''URL: '' @ url demo_home_page @ nl) ?B"
    by (rule build_brand_context_home_prefix)
  then have "prefix ''=== HOME PAGE ==='' ?B"
    by (metis append_prefixD)
  then have inB: "sublist ''=== HOME PAGE ==='' ?B"
    by (rule prefix_imp_sublist)
  have absent: "\<not> sublist ?B ?P"
  proof
    assume "sublist ?B ?P"
    with inB have "sublist ''=== HOME PAGE ==='' ?P"
      by (rule sublist_order.order_trans)
    with home show False by simp
  qed
  from inB have "?B \<noteq> []"
    by auto
  then have embeds: "sublist ?B
       (build_landing_page_prompt (py_repr demo_gen_env) demo_uuid (user_input_of demo_request)
          (Some ?B))"
    by (rule build_landing_page_prompt_embeds)
  from demo_request_crawl sent absent marker primary embeds stored
  show ?thesis by blast
qed

text \<open>
  C2, on the stored page of the small site and a regeneration request that carries no
  context. The page is stored with its brief and its brand context; the one prompt sent is
  the one built from the empty context and no brand context, and differs from the prompt
  built from the stored ones.
\<close>

theorem regeneration_prompt_ignores_stored_context:
  "length (fst (regenerate_section_endpoint demo_gen_env 20 demo_store ''landing-1''
                  demo_regenerate_request)) = 1 \<and>
   build_section_regenerate_prompt (py_repr demo_gen_env) (str_upper demo_gen_env)
     demo_hero_fields [] None =
     Inr (user_content (hd (fst (regenerate_section_endpoint demo_gen_env 20 demo_store
                                   ''landing-1'' demo_regenerate_request)))) \<and>
   build_section_regenerate_prompt (py_repr demo_gen_env) (str_upper demo_gen_env)
     demo_hero_fields (user_context demo_document) (crawled_context demo_document) \<noteq>
     Inr (user_content (hd (fst (regenerate_section_endpoint demo_gen_env 20 demo_store
                                   ''landing-1'' demo_regenerate_request))))"
  by code_simp

end
